theory Spec2Isabelle
  imports Main
begin

section \<open>Python values of the updater\<close>

text \<open>
  The module \<^verbatim>\<open>github_archive_updater.py\<close> works on three kinds of data: text, the
  parsed JSON body of GitHub's latest-release answer, and the protobuf messages of the
  METADATA file. Every exception the module can raise is a value of \<open>exn\<close>; a function
  that can raise returns \<open>exn + 'a\<close>, with \<open>Inl\<close> for the exception.

  A \<open>char\<close> stands for one code point below 256, so a \<open>string\<close> is a Python \<open>str\<close> of
  Latin-1 text; text with larger code points is outside this development.
\<close>

datatype exn =
    ValueError string           \<comment> \<open>raised by the module itself, with its message\<close>
  | KeyError string             \<comment> \<open>a missing dictionary key\<close>
  | TypeError                   \<comment> \<open>an operation on a value of the wrong type\<close>
  | AttributeError              \<comment> \<open>a method or field the value does not have\<close>
  | OtherError string           \<comment> \<open>any other exception of a collaborator, by class name\<close>

text \<open>
  What \<^verbatim>\<open>json.loads\<close> returns. An object is the list of its items in insertion
  order; a lookup takes the first item with the key. JSON numbers with a fraction or an
  exponent (Python floats) are not represented.
\<close>

datatype json =
    JNull
  | JBool bool
  | JInt int
  | JStr string
  | JArray "json list"
  | JObject "(string \<times> json) list"

text \<open>\<^verbatim>\<open>x[key]\<close> with a string key.\<close>

fun subscript :: "json \<Rightarrow> string \<Rightarrow> exn + json" where
  "subscript (JObject kvs) k = (case map_of kvs k of None \<Rightarrow> Inl (KeyError k) | Some v \<Rightarrow> Inr v)"
| "subscript _ k = Inl TypeError"

text \<open>\<^verbatim>\<open>x.get(key)\<close>: only a dictionary has the method; a missing key gives \<open>None\<close>.\<close>

fun get_method :: "json \<Rightarrow> string \<Rightarrow> exn + json" where
  "get_method (JObject kvs) k = (case map_of kvs k of None \<Rightarrow> Inr JNull | Some v \<Rightarrow> Inr v)"
| "get_method _ k = Inl AttributeError"

text \<open>
  \<^verbatim>\<open>for a in x\<close>: the elements of a list, the keys of a dictionary, the characters of
  a string; nothing else is iterable.
\<close>

fun iterate :: "json \<Rightarrow> exn + json list" where
  "iterate (JArray xs) = Inr xs"
| "iterate (JObject kvs) = Inr (map (\<lambda>kv. JStr (fst kv)) kvs)"
| "iterate (JStr s) = Inr (map (\<lambda>c. JStr [c]) s)"
| "iterate _ = Inl TypeError"

section \<open>The METADATA record\<close>

text \<open>
  Modelled from the spec: the generated protobuf module \<^verbatim>\<open>metadata_pb2\<close> is not part
  of the sources. The spec gives a URL entry a kind and a value, and names the archive
  kind next to homepage and repository URLs.
\<close>

datatype url_kind = ARCHIVE | HOMEPAGE | REPOSITORY

text \<open>
  Modelled from the spec: a URL message \<^verbatim>\<open>{kind, value}\<close> (the fields \<^verbatim>\<open>type\<close> and
  \<^verbatim>\<open>value\<close> of the source).
\<close>

record URL =
  url_type :: url_kind
  url_value :: string

text \<open>
  Modelled from the spec: \<^verbatim>\<open>third_party\<close> holds the ordered URL entries and the
  version string; \<open>tp_other\<close> stands for all its other fields.
\<close>

record 'a ThirdParty =
  url :: "URL list"
  version :: string
  tp_other :: 'a

text \<open>
  Modelled from the spec: the metadata record; \<open>md_other\<close> stands for all fields
  outside \<^verbatim>\<open>third_party\<close>.
\<close>

record ('a, 'b) MetaData =
  third_party :: "'a ThirdParty"
  md_other :: 'b

section \<open>Parsing the archive URL\<close>

text \<open>
  \<^verbatim>\<open>\w\<close> of a Python 3 \<open>str\<close> pattern: a letter, a digit or a number character of
  Unicode, or the underscore. Below 256 these are the ASCII letters and digits, the
  underscore, and the Latin-1 letters and number signs listed here.
\<close>

definition word_char :: "char \<Rightarrow> bool" where
  "word_char c =
    (let n = (of_char c :: nat) in
      (48 \<le> n \<and> n \<le> 57) \<or> (65 \<le> n \<and> n \<le> 90) \<or> n = 95 \<or> (97 \<le> n \<and> n \<le> 122) \<or>
      n = 170 \<or> n = 178 \<or> n = 179 \<or> n = 181 \<or> n = 185 \<or> n = 186 \<or>
      (188 \<le> n \<and> n \<le> 190) \<or> (192 \<le> n \<and> n \<le> 214) \<or> (216 \<le> n \<and> n \<le> 246) \<or>
      248 \<le> n)"

text \<open>The character class \<^verbatim>\<open>[-\w]\<close>.\<close>

definition hyphen_or_word :: "char \<Rightarrow> bool" where
  "hyphen_or_word c = (c = CHR ''-'' \<or> word_char c)"

text \<open>A literal piece of the pattern: the rest of the text after it, if the text starts with it.\<close>

fun match_literal :: "string \<Rightarrow> string \<Rightarrow> string option" where
  "match_literal [] s = Some s"
| "match_literal (p # ps) [] = None"
| "match_literal (p # ps) (c # cs) = (if p = c then match_literal ps cs else None)"

text \<open>The pattern \<^verbatim>\<open>.\<close>: any one character but the line feed.\<close>

fun match_dot :: "string \<Rightarrow> string option" where
  "match_dot [] = None"
| "match_dot (c # cs) = (if c = CHR 0x0A then None else Some cs)"

text \<open>
  A group \<^verbatim>\<open>([-\w]+)\<close>: the longest run of class characters, which must not be empty.
  Each group is followed by the literal \<^verbatim>\<open>/\<close>, which is not in the class, so giving
  characters back never helps and the longest run is the only candidate.
\<close>

definition match_group :: "string \<Rightarrow> (string \<times> string) option" where
  "match_group s =
    (let g = takeWhile hyphen_or_word s in
      if g = [] then None else Some (g, dropWhile hyphen_or_word s))"

text \<open>
  \<^verbatim>\<open>GITHUB_URL_RE.match(value)\<close> for the pattern
  \<^verbatim>\<open>^https:\/\/github.com\/([-\w]+)\/([-\w]+)\/(releases\/download\/|archive\/)\<close>:
  the groups 1 and 2 of the match, or \<open>None\<close>. The dot between \<^verbatim>\<open>github\<close> and
  \<^verbatim>\<open>com\<close> is not escaped in the source.
\<close>

definition GITHUB_URL_RE_match :: "string \<Rightarrow> (string \<times> string) option" where
  "GITHUB_URL_RE_match s =
    (case match_literal ''https://github'' s of None \<Rightarrow> None | Some s1 \<Rightarrow>
     case match_dot s1 of None \<Rightarrow> None | Some s2 \<Rightarrow>
     case match_literal ''com/'' s2 of None \<Rightarrow> None | Some s3 \<Rightarrow>
     case match_group s3 of None \<Rightarrow> None | Some (g1, s4) \<Rightarrow>
     case match_literal ''/'' s4 of None \<Rightarrow> None | Some s5 \<Rightarrow>
     case match_group s5 of None \<Rightarrow> None | Some (g2, s6) \<Rightarrow>
     case match_literal ''/'' s6 of None \<Rightarrow> None | Some s7 \<Rightarrow>
     case match_literal ''releases/download/'' s7 of Some _ \<Rightarrow> Some (g1, g2) | None \<Rightarrow>
     case match_literal ''archive/'' s7 of Some _ \<Rightarrow> Some (g1, g2) | None \<Rightarrow> None)"

section \<open>The updater instance\<close>

text \<open>
  The fields of a \<^verbatim>\<open>GithubArchiveUpdater\<close>. \<open>metadata\<close> is a reference to the
  caller's record (an index into the heap of messages below); \<open>old_url\<close> is kept by
  value, since no URL message that exists before \<^verbatim>\<open>update()\<close> is ever assigned to.
  \<open>data\<close> is \<open>JNull\<close> (Python's \<open>None\<close>) until a release payload is stored.
\<close>

record updater =
  proj_path :: string
  metadata :: nat
  old_url :: URL
  owner :: "string option"
  repo :: "string option"
  data :: json

text \<open>
  \<^verbatim>\<open>_parse_url\<close>. The \<^verbatim>\<open>except IndexError\<close> branch of the source cannot be
  taken: the pattern has the groups 1 and 2.
\<close>

definition parse_url :: "updater \<Rightarrow> URL \<Rightarrow> exn + updater" where
  "parse_url self u =
    (if url_type u \<noteq> ARCHIVE then Inl (ValueError ''Only archive url from Github is supported.'')
     else case GITHUB_URL_RE_match (url_value u) of
       None \<Rightarrow> Inl (ValueError ''Url format is not supported.'')
     | Some (g1, g2) \<Rightarrow> Inr (self\<lparr>owner := Some g1, repo := Some g2\<rparr>))"

text \<open>\<^verbatim>\<open>__init__\<close>: the fields are set, then the URL is parsed, once.\<close>

definition GithubArchiveUpdater :: "URL \<Rightarrow> string \<Rightarrow> nat \<Rightarrow> exn + updater" where
  "GithubArchiveUpdater u p m =
    parse_url \<lparr>proj_path = p, metadata = m, old_url = u, owner = None, repo = None, data = JNull\<rparr> u"

section \<open>Collaborators\<close>

text \<open>
  The modules \<^verbatim>\<open>archive_utils\<close>, \<^verbatim>\<open>fileutils\<close> and \<^verbatim>\<open>updater_utils\<close> are
  not part of the sources, and neither are the network and the file system. They are
  parameters: a collaborator with an effect takes the state \<open>'w\<close> of the world (files,
  network, the download cache of \<^verbatim>\<open>urllib\<close>) and returns the new one with its result.

  \<^item> \<open>is_supported_archive\<close>: the format detection of the archive fetcher, without effect.
  \<^item> \<open>download_and_extract\<close>, \<open>find_archive_root\<close>: the archive fetcher.
  \<^item> \<open>fileutils_write_metadata\<close>: the metadata store, \<^verbatim>\<open>fileutils.write_metadata\<close>.
  \<^item> \<open>replace_package\<close>: the package replacer.
  \<^item> \<open>remove_tree\<close>: the removal \<^verbatim>\<open>shutil.rmtree\<close> attempts on its argument, which
    may fail; the argument is the value of \<^verbatim>\<open>temporary_dir\<close>, \<open>None\<close> or a directory.
  \<^item> \<open>unlink_cached\<close>: the unlinking of the files of the download cache that
    \<^verbatim>\<open>urllib.request.urlcleanup\<close> attempts, which may fail.
  \<^item> \<open>urlopen_read\<close>: \<^verbatim>\<open>urlopen(url)\<close>, reading the body and closing the answer.
  \<^item> \<open>json_loads\<close>: decoding the body and \<^verbatim>\<open>json.loads\<close>.
  \<^item> \<open>new_MetaData\<close>: the message \<^verbatim>\<open>metadata_pb2.MetaData()\<close> makes, every field at
    its default.
  \<^item> \<open>array_lt\<close>: Python's \<^verbatim>\<open><\<close> between two lists.
  \<^item> \<open>repr\<close>: the text \<^verbatim>\<open>str.format\<close> gives a list or a dictionary.
\<close>

record ('a, 'b, 'w) env =
  is_supported_archive :: "json \<Rightarrow> exn + bool"
  download_and_extract :: "json \<Rightarrow> 'w \<Rightarrow> (exn + string) \<times> 'w"
  find_archive_root :: "string \<Rightarrow> 'w \<Rightarrow> (exn + string) \<times> 'w"
  fileutils_write_metadata :: "string \<Rightarrow> ('a, 'b) MetaData \<Rightarrow> 'w \<Rightarrow> (exn + unit) \<times> 'w"
  replace_package :: "string \<Rightarrow> string \<Rightarrow> 'w \<Rightarrow> (exn + unit) \<times> 'w"
  remove_tree :: "string option \<Rightarrow> 'w \<Rightarrow> (exn + unit) \<times> 'w"
  unlink_cached :: "'w \<Rightarrow> (exn + unit) \<times> 'w"
  urlopen_read :: "string \<Rightarrow> 'w \<Rightarrow> (exn + string) \<times> 'w"
  json_loads :: "string \<Rightarrow> exn + json"
  new_MetaData :: "('a, 'b) MetaData"
  array_lt :: "json list \<Rightarrow> json list \<Rightarrow> exn + bool"
  repr :: "json \<Rightarrow> string"

section \<open>Comparing and formatting values\<close>

text \<open>\<^verbatim>\<open>bool\<close> is a subclass of \<^verbatim>\<open>int\<close>: \<open>True\<close> counts as 1 and \<open>False\<close> as 0.\<close>

fun as_number :: "json \<Rightarrow> int option" where
  "as_number (JInt i) = Some i"
| "as_number (JBool b) = Some (if b then 1 else 0)"
| "as_number _ = None"

text \<open>\<^verbatim>\<open><\<close> between two strings: by the first differing code point, a proper prefix first.\<close>

fun str_lt :: "string \<Rightarrow> string \<Rightarrow> bool" where
  "str_lt [] [] = False"
| "str_lt [] (d # t) = True"
| "str_lt (c # s) [] = False"
| "str_lt (c # s) (d # t) = (if c = d then str_lt s t else (of_char c :: nat) < of_char d)"

text \<open>
  \<^verbatim>\<open>a < b\<close> between two parsed JSON values: numbers with numbers, strings with
  strings, lists with lists; every other pair raises \<^verbatim>\<open>TypeError\<close>.
\<close>

definition py_lt :: "('a, 'b, 'w) env \<Rightarrow> json \<Rightarrow> json \<Rightarrow> exn + bool" where
  "py_lt E a b =
    (case as_number a of
       Some x \<Rightarrow> (case as_number b of Some y \<Rightarrow> Inr (x < y) | None \<Rightarrow> Inl TypeError)
     | None \<Rightarrow>
        (case a of
           JStr s \<Rightarrow> (case b of JStr t \<Rightarrow> Inr (str_lt s t) | _ \<Rightarrow> Inl TypeError)
         | JArray xs \<Rightarrow> (case b of JArray ys \<Rightarrow> array_lt E xs ys | _ \<Rightarrow> Inl TypeError)
         | _ \<Rightarrow> Inl TypeError))"

text \<open>The decimal digits of a number, as \<^verbatim>\<open>str\<close> writes an \<^verbatim>\<open>int\<close>.\<close>

function show_nat :: "nat \<Rightarrow> string" where
  "show_nat n =
    (if n < 10 then [char_of (48 + n)] else show_nat (n div 10) @ [char_of (48 + n mod 10)])"
  by pat_completeness auto
termination
  by (relation "measure id") auto

definition show_int :: "int \<Rightarrow> string" where
  "show_int i = (if i < 0 then CHR ''-'' # show_nat (nat (- i)) else show_nat (nat i))"

text \<open>What a \<^verbatim>\<open>{}\<close> field of \<^verbatim>\<open>str.format\<close> writes for a value.\<close>

fun py_str :: "('a, 'b, 'w) env \<Rightarrow> json \<Rightarrow> string" where
  "py_str E (JStr s) = s"
| "py_str E JNull = ''None''"
| "py_str E (JBool b) = (if b then ''True'' else ''False'')"
| "py_str E (JInt i) = show_int i"
| "py_str E v = repr E v"

text \<open>The same for the fields \<open>owner\<close> and \<open>repo\<close>, a string or \<open>None\<close>.\<close>

fun str_of_field :: "string option \<Rightarrow> string" where
  "str_of_field None = ''None''"
| "str_of_field (Some s) = s"

section \<open>Selecting the asset\<close>

text \<open>
  The condition and the body of the list comprehension of \<^verbatim>\<open>update()\<close>, element
  by element in the listed order; the first exception ends it.
\<close>

fun filter_supported :: "('a, 'b, 'w) env \<Rightarrow> json list \<Rightarrow> exn + json list" where
  "filter_supported E [] = Inr []"
| "filter_supported E (a # as) =
    (case subscript a ''browser_download_url'' of Inl e \<Rightarrow> Inl e | Inr u \<Rightarrow>
     case is_supported_archive E u of Inl e \<Rightarrow> Inl e | Inr keep \<Rightarrow>
     case filter_supported E as of Inl e \<Rightarrow> Inl e | Inr r \<Rightarrow>
       Inr (if keep then a # r else r))"

text \<open>\<^verbatim>\<open>supported_assets\<close>, the list the comprehension builds.\<close>

definition supported_assets :: "('a, 'b, 'w) env \<Rightarrow> updater \<Rightarrow> exn + json list" where
  "supported_assets E self =
    (case subscript (data self) ''assets'' of Inl e \<Rightarrow> Inl e | Inr assets \<Rightarrow>
     case iterate assets of Inl e \<Rightarrow> Inl e | Inr items \<Rightarrow>
       filter_supported E items)"

text \<open>
  The loop of the builtin \<^verbatim>\<open>min\<close> with a key: \<open>best\<close> is the element kept so far and
  \<open>kb\<close> its key; a later element replaces it only when its key is smaller.
\<close>

fun min_scan :: "('a, 'b, 'w) env \<Rightarrow> json \<Rightarrow> json \<Rightarrow> json list \<Rightarrow> exn + json" where
  "min_scan E best kb [] = Inr best"
| "min_scan E best kb (a # as) =
    (case subscript a ''size'' of Inl e \<Rightarrow> Inl e | Inr k \<Rightarrow>
     case py_lt E k kb of Inl e \<Rightarrow> Inl e | Inr smaller \<Rightarrow>
       if smaller then min_scan E a k as else min_scan E best kb as)"

text \<open>\<^verbatim>\<open>min(xs, key=lambda asset: asset['size'], default=None)\<close>.\<close>

fun min_by_size :: "('a, 'b, 'w) env \<Rightarrow> json list \<Rightarrow> exn + json" where
  "min_by_size E [] = Inr JNull"
| "min_by_size E (a # as) =
    (case subscript a ''size'' of Inl e \<Rightarrow> Inl e | Inr k \<Rightarrow> min_scan E a k as)"

text \<open>
  The first part of \<^verbatim>\<open>update()\<close>, up to the assignment of \<^verbatim>\<open>latest_url\<close>: the
  download URL of the smallest supported asset, or the guessed URL of the source tarball.
\<close>

definition latest_url :: "('a, 'b, 'w) env \<Rightarrow> updater \<Rightarrow> exn + json" where
  "latest_url E self =
    (case supported_assets E self of Inl e \<Rightarrow> Inl e | Inr supported \<Rightarrow>
     case min_by_size E supported of Inl e \<Rightarrow> Inl e | Inr minimum_asset \<Rightarrow>
       if minimum_asset \<noteq> JNull then get_method minimum_asset ''browser_download_url''
       else
         (case get_method (data self) ''tag_name'' of Inl e \<Rightarrow> Inl e | Inr tag \<Rightarrow>
            Inr (JStr (''https://github.com/'' @ str_of_field (owner self) @ ''/'' @
                       str_of_field (repo self) @ ''/archive/'' @ py_str E tag @ ''.tar.gz''))))"

section \<open>Messages on the heap\<close>

text \<open>
  Protobuf messages are objects that are assigned to in place, so the metadata records
  live on a heap: a list of messages, a reference being an index into it. A reference
  past the end stands for an object that is not a \<^verbatim>\<open>MetaData\<close> message. A new
  message takes the next free index; nothing is ever freed.
\<close>

type_synonym ('a, 'b) heap = "('a, 'b) MetaData list"

text \<open>
  The loop of \<^verbatim>\<open>_write_metadata\<close> over the URL entries of the copy: an entry equal
  to \<^verbatim>\<open>self.old_url\<close> gets the new value. A protobuf string field takes only a
  \<^verbatim>\<open>str\<close>; the assignment of anything else raises \<^verbatim>\<open>TypeError\<close>, and the entries
  before it are as they were.
\<close>

fun rewrite_urls :: "URL \<Rightarrow> json \<Rightarrow> URL list \<Rightarrow> exn + URL list" where
  "rewrite_urls old new [] = Inr []"
| "rewrite_urls old new (metadata_url # rest) =
    (if metadata_url = old then
       (case new of
          JStr s \<Rightarrow>
            (case rewrite_urls old new rest of Inl e \<Rightarrow> Inl e
             | Inr rest' \<Rightarrow> Inr (metadata_url\<lparr>url_value := s\<rparr> # rest'))
        | _ \<Rightarrow> Inl TypeError)
     else
       (case rewrite_urls old new rest of Inl e \<Rightarrow> Inl e
        | Inr rest' \<Rightarrow> Inr (metadata_url # rest')))"

text \<open>
  \<^verbatim>\<open>_write_metadata(url, path)\<close>, statement by statement. \<open>r\<close> is the reference of
  the new message \<^verbatim>\<open>updated_metadata\<close>; \<^verbatim>\<open>CopyFrom\<close> overwrites it with the content
  of \<^verbatim>\<open>self.metadata\<close> and raises \<^verbatim>\<open>TypeError\<close> when that is not a message of the
  same type. The version is assigned after the right-hand side \<^verbatim>\<open>self.data['tag_name']\<close>
  is evaluated. The result is the outcome, the heap and the world.
\<close>

definition write_metadata ::
  "('a, 'b, 'w) env \<Rightarrow> updater \<Rightarrow> json \<Rightarrow> string \<Rightarrow> ('a, 'b) heap \<Rightarrow> 'w \<Rightarrow>
    (exn + unit) \<times> ('a, 'b) heap \<times> 'w" where
  "write_metadata E self new path h w =
    (let r = length h; h1 = h @ [new_MetaData E] in
     if \<not> metadata self < length h then (Inl TypeError, h1, w)
     else
       let h2 = h1[r := h1 ! metadata self] in
       case subscript (data self) ''tag_name'' of Inl e \<Rightarrow> (Inl e, h2, w) | Inr tag \<Rightarrow>
       case tag of
         JStr t \<Rightarrow>
           (let m3 = (h2 ! r)\<lparr>third_party := (third_party (h2 ! r))\<lparr>version := t\<rparr>\<rparr>;
                h3 = h2[r := m3] in
            case rewrite_urls (old_url self) new (url (third_party m3)) of
              Inl e \<Rightarrow> (Inl e, h3, w)
            | Inr urls \<Rightarrow>
                (let m4 = m3\<lparr>third_party := (third_party m3)\<lparr>url := urls\<rparr>\<rparr>;
                     h4 = h3[r := m4] in
                 case fileutils_write_metadata E path m4 w of (res, w') \<Rightarrow> (res, h4, w')))
       | _ \<Rightarrow> (Inl TypeError, h2, w))"

section \<open>The public methods\<close>

text \<open>
  \<^verbatim>\<open>get_latest_version()\<close>: the payload is stored on the instance before the tag is
  read from it. The result is the outcome, the instance and the world.
\<close>

definition get_latest_version ::
  "('a, 'b, 'w) env \<Rightarrow> updater \<Rightarrow> 'w \<Rightarrow> (exn + json) \<times> updater \<times> 'w" where
  "get_latest_version E self w =
    (let address = ''https://api.github.com/repos/'' @ str_of_field (owner self) @ ''/'' @
                   str_of_field (repo self) @ ''/releases/latest'' in
     case urlopen_read E address w of
       (Inl e, w') \<Rightarrow> (Inl e, self, w')
     | (Inr body, w') \<Rightarrow>
         (case json_loads E body of
            Inl e \<Rightarrow> (Inl e, self, w')
          | Inr payload \<Rightarrow> (subscript payload ''tag_name'', self\<lparr>data := payload\<rparr>, w')))"

text \<open>
  \<^verbatim>\<open>get_current_version()\<close>: a read of the record \<^verbatim>\<open>self.metadata\<close> refers to;
  an object that is not a metadata message has no such field.
\<close>

definition get_current_version :: "updater \<Rightarrow> ('a, 'b) heap \<Rightarrow> exn + string" where
  "get_current_version self h =
    (if metadata self < length h then Inr (version (third_party (h ! metadata self)))
     else Inl AttributeError)"

text \<open>
  The body of the \<^verbatim>\<open>try\<close> statement of \<^verbatim>\<open>update()\<close>: the outcome, the value of
  \<^verbatim>\<open>temporary_dir\<close> when the body is left, the heap and the world.
\<close>

definition update_try ::
  "('a, 'b, 'w) env \<Rightarrow> updater \<Rightarrow> json \<Rightarrow> ('a, 'b) heap \<Rightarrow> 'w \<Rightarrow>
    (exn + unit) \<times> string option \<times> ('a, 'b) heap \<times> 'w" where
  "update_try E self latest h w =
    (case download_and_extract E latest w of
       (Inl e, w1) \<Rightarrow> (Inl e, None, h, w1)
     | (Inr temporary_dir, w1) \<Rightarrow>
     case find_archive_root E temporary_dir w1 of
       (Inl e, w2) \<Rightarrow> (Inl e, Some temporary_dir, h, w2)
     | (Inr package_dir, w2) \<Rightarrow>
     case write_metadata E self latest package_dir h w2 of
       (Inl e, h3, w3) \<Rightarrow> (Inl e, Some temporary_dir, h3, w3)
     | (Inr _, h3, w3) \<Rightarrow>
     case replace_package E package_dir (proj_path self) w3 of
       (res, w4) \<Rightarrow> (res, Some temporary_dir, h3, w4))"

text \<open>
  \<^verbatim>\<open>shutil.rmtree(temporary_dir, ignore_errors=True)\<close>: with the flag set, a failure
  of the removal is dropped and the call returns.
\<close>

definition rmtree :: "('a, 'b, 'w) env \<Rightarrow> string option \<Rightarrow> 'w \<Rightarrow> 'w" where
  "rmtree E temporary_dir w = snd (remove_tree E temporary_dir w)"

text \<open>
  \<^verbatim>\<open>urllib.request.urlcleanup()\<close>: the standard library unlinks each cached file
  inside \<^verbatim>\<open>try\<close>/\<^verbatim>\<open>except OSError\<close>, so a failure of the unlinking is dropped there
  and the call returns.
\<close>

definition urlcleanup :: "('a, 'b, 'w) env \<Rightarrow> 'w \<Rightarrow> 'w" where
  "urlcleanup E w = snd (unlink_cached E w)"

text \<open>The \<^verbatim>\<open>finally\<close> block: the temporary directory, then the download cache.\<close>

definition cleanup :: "('a, 'b, 'w) env \<Rightarrow> string option \<Rightarrow> 'w \<Rightarrow> 'w" where
  "cleanup E temporary_dir w = urlcleanup E (rmtree E temporary_dir w)"

text \<open>
  \<^verbatim>\<open>update()\<close>: the asset is selected before the \<^verbatim>\<open>try\<close> statement is entered;
  the \<^verbatim>\<open>finally\<close> block runs however the body is left, and the outcome of the body
  is the outcome of the call.
\<close>

definition update ::
  "('a, 'b, 'w) env \<Rightarrow> updater \<Rightarrow> ('a, 'b) heap \<Rightarrow> 'w \<Rightarrow> (exn + unit) \<times> ('a, 'b) heap \<times> 'w" where
  "update E self h w =
    (case latest_url E self of
       Inl e \<Rightarrow> (Inl e, h, w)
     | Inr latest \<Rightarrow>
         (case update_try E self latest h w of
            (res, temporary_dir, h', w') \<Rightarrow> (res, h', cleanup E temporary_dir w')))"

section \<open>Notions of the specification\<close>

text \<open>\<open>s\<close> starts with \<open>p\<close>, and \<open>s\<close> ends with \<open>p\<close>.\<close>

definition starts_with :: "string \<Rightarrow> string \<Rightarrow> bool" where
  "starts_with s p = (take (length p) s = p)"

definition ends_with :: "string \<Rightarrow> string \<Rightarrow> bool" where
  "ends_with s p = (length p \<le> length s \<and> drop (length s - length p) s = p)"

text \<open>
  The two URL shapes the specification recognises, for an owner and a repository made of
  word characters and hyphens: \<^verbatim>\<open>https://github.com/<owner>/<repo>/releases/download/...\<close>
  and \<^verbatim>\<open>https://github.com/<owner>/<repo>/archive/...\<close>.
\<close>

definition spec_archive_url :: "string \<Rightarrow> string \<Rightarrow> string \<Rightarrow> bool" where
  "spec_archive_url ow rp s =
    (ow \<noteq> [] \<and> rp \<noteq> [] \<and> list_all hyphen_or_word ow \<and> list_all hyphen_or_word rp \<and>
     (starts_with s (''https://github.com/'' @ ow @ ''/'' @ rp @ ''/releases/download/'') \<or>
      starts_with s (''https://github.com/'' @ ow @ ''/'' @ rp @ ''/archive/'')))"

text \<open>
  An asset record of the specification, \<^verbatim>\<open>{download_url, size: integer, ...}\<close>: a
  dictionary with a download URL that the format detection answers for, and an integer
  size.
\<close>

fun is_asset :: "('a, 'b, 'w) env \<Rightarrow> json \<Rightarrow> bool" where
  "is_asset E (JObject kvs) =
    ((case map_of kvs ''browser_download_url'' of
        None \<Rightarrow> False
      | Some u \<Rightarrow> (case is_supported_archive E u of Inl _ \<Rightarrow> False | Inr _ \<Rightarrow> True)) \<and>
     (case map_of kvs ''size'' of Some (JInt n) \<Rightarrow> True | _ \<Rightarrow> False))"
| "is_asset E _ = False"

text \<open>The download URL and the declared size of an asset, and whether its URL is supported.\<close>

definition asset_url :: "json \<Rightarrow> json" where
  "asset_url a = (case subscript a ''browser_download_url'' of Inr u \<Rightarrow> u | Inl _ \<Rightarrow> JNull)"

definition asset_size :: "json \<Rightarrow> int" where
  "asset_size a = (case subscript a ''size'' of Inr (JInt n) \<Rightarrow> n | _ \<Rightarrow> 0)"

definition asset_supported :: "('a, 'b, 'w) env \<Rightarrow> json \<Rightarrow> bool" where
  "asset_supported E a = (is_supported_archive E (asset_url a) = Inr True)"

section \<open>A recording environment\<close>

text \<open>
  An environment for running the methods on concrete inputs. Its world is the list of
  the calls made to the collaborators, oldest first. \<open>fail\<close> says which calls raise, and
  \<open>parsed\<close> is what the body of the answer parses to. Archives are recognised by two
  file name endings.
\<close>

datatype event =
    Urlopen string
  | Download json
  | FindRoot string
  | WriteMetadata string "(unit, unit) MetaData"
  | ReplacePackage string string
  | Rmtree "string option"
  | Urlcleanup

definition raise_or :: "(event \<Rightarrow> exn option) \<Rightarrow> event \<Rightarrow> 'r \<Rightarrow> event list \<Rightarrow> (exn + 'r) \<times> event list" where
  "raise_or fail ev res w = ((case fail ev of Some e \<Rightarrow> Inl e | None \<Rightarrow> Inr res), w @ [ev])"

definition recording_env ::
  "(event \<Rightarrow> exn option) \<Rightarrow> exn + json \<Rightarrow> (unit, unit, event list) env" where
  "recording_env fail parsed =
    \<lparr>is_supported_archive =
       (\<lambda>u. case u of
          JStr s \<Rightarrow> Inr (ends_with s ''.zip'' \<or> ends_with s ''.tar.gz'')
        | _ \<Rightarrow> Inl AttributeError),
     download_and_extract = (\<lambda>u. raise_or fail (Download u) ''/tmp/dl''),
     find_archive_root = (\<lambda>d. raise_or fail (FindRoot d) (d @ ''/root'')),
     fileutils_write_metadata = (\<lambda>p m. raise_or fail (WriteMetadata p m) ()),
     replace_package = (\<lambda>p q. raise_or fail (ReplacePackage p q) ()),
     remove_tree = (\<lambda>d. raise_or fail (Rmtree d) ()),
     unlink_cached = raise_or fail Urlcleanup (),
     urlopen_read = (\<lambda>a. raise_or fail (Urlopen a) ''body''),
     json_loads = (\<lambda>body. parsed),
     new_MetaData = \<lparr>third_party = \<lparr>url = [], version = [], tp_other = ()\<rparr>, md_other = ()\<rparr>,
     array_lt = (\<lambda>xs ys. Inl TypeError),
     repr = (\<lambda>v. ''...'')\<rparr>"

text \<open>No call raises.\<close>

definition no_failure :: "event \<Rightarrow> exn option" where
  "no_failure ev = None"

text \<open>The call \<open>bad\<close> raises, every other call succeeds.\<close>

definition failing :: "event \<Rightarrow> event \<Rightarrow> exn option" where
  "failing bad ev = (if ev = bad then Some (OtherError ''OSError'') else None)"

section \<open>Example inputs\<close>

text \<open>
  A vendored package \<^verbatim>\<open>third_party/r\<close> taken from \<^verbatim>\<open>github.com/o/r\<close> at version
  1.0: its metadata record, with a homepage and the archive URL, and an updater for that
  archive URL holding a given payload.
\<close>

definition example_url :: URL where
  "example_url = \<lparr>url_type = ARCHIVE, url_value = ''https://github.com/o/r/archive/1.0.tar.gz''\<rparr>"

definition example_metadata :: "(unit, unit) MetaData" where
  "example_metadata =
    \<lparr>third_party =
       \<lparr>url = [\<lparr>url_type = HOMEPAGE, url_value = ''https://o.example/r''\<rparr>, example_url],
        version = ''1.0'', tp_other = ()\<rparr>,
     md_other = ()\<rparr>"

definition example_updater :: "json \<Rightarrow> updater" where
  "example_updater payload =
    \<lparr>proj_path = ''third_party/r'', metadata = 0, old_url = example_url,
     owner = Some ''o'', repo = Some ''r'', data = payload\<rparr>"

text \<open>An asset of a release payload, and two payloads for the release 1.1.\<close>

definition asset :: "string \<Rightarrow> int \<Rightarrow> json" where
  "asset u n = JObject [(''browser_download_url'', JStr u), (''size'', JInt n)]"

definition release_with_assets :: json where
  "release_with_assets =
    JObject [(''tag_name'', JStr ''1.1''),
             (''assets'', JArray [asset ''https://github.com/o/r/releases/download/1.1/r-all.zip'' 50,
                                  asset ''https://github.com/o/r/releases/download/1.1/r.tar.gz'' 10,
                                  asset ''https://github.com/o/r/releases/download/1.1/r.zip'' 10,
                                  asset ''https://github.com/o/r/releases/download/1.1/r.sig'' 1])]"

definition release_without_assets :: json where
  "release_without_assets = JObject [(''tag_name'', JStr ''1.1''), (''assets'', JArray [])]"

text \<open>
  The URL of the source tarball of the release 1.1, and the example record as the
  specification expects it after the update to that release.
\<close>

definition example_latest :: string where
  "example_latest = ''https://github.com/o/r/archive/1.1.tar.gz''"

definition example_updated :: "(unit, unit) MetaData" where
  "example_updated =
    \<lparr>third_party =
       \<lparr>url = [\<lparr>url_type = HOMEPAGE, url_value = ''https://o.example/r''\<rparr>,
               \<lparr>url_type = ARCHIVE, url_value = example_latest\<rparr>],
        version = ''1.1'', tp_other = ()\<rparr>,
     md_other = ()\<rparr>"

text \<open>A record that lists the archive URL twice.\<close>

definition duplicate_metadata :: "(unit, unit) MetaData" where
  "duplicate_metadata =
    \<lparr>third_party = \<lparr>url = [example_url, example_url], version = ''1.0'', tp_other = ()\<rparr>,
     md_other = ()\<rparr>"

section \<open>A file system environment\<close>

text \<open>
  Modelled from the spec: the collaborators as the specification describes them, on a
  file system that is a list of paths with their content. The archive fetcher extracts
  into a fresh temporary directory and finds the package root inside the extracted tree;
  the metadata store writes the record to the \<^verbatim>\<open>METADATA\<close> file under the path it is
  given; removing a directory removes every file below it. The package replacer of this
  environment fails before it changes anything.
\<close>

datatype content = SourceFile string | MetadataFile "(unit, unit) MetaData"

definition write_file :: "string \<Rightarrow> content \<Rightarrow> (string \<times> content) list \<Rightarrow> (string \<times> content) list" where
  "write_file path content fs = filter (\<lambda>f. fst f \<noteq> path) fs @ [(path, content)]"

definition remove_below :: "string option \<Rightarrow> (string \<times> content) list \<Rightarrow> (string \<times> content) list" where
  "remove_below dir fs =
    (case dir of None \<Rightarrow> fs | Some d \<Rightarrow> filter (\<lambda>f. \<not> starts_with (fst f) (d @ ''/'')) fs)"

definition file_system_env :: "(unit, unit, (string \<times> content) list) env" where
  "file_system_env =
    \<lparr>is_supported_archive =
       (\<lambda>u. case u of
          JStr s \<Rightarrow> Inr (ends_with s ''.zip'' \<or> ends_with s ''.tar.gz'')
        | _ \<Rightarrow> Inl AttributeError),
     download_and_extract =
       (\<lambda>u fs. (Inr ''/tmp/dl'', write_file ''/tmp/dl/r-1.1/README'' (SourceFile ''r 1.1'') fs)),
     find_archive_root = (\<lambda>d fs. (Inr (d @ ''/r-1.1''), fs)),
     fileutils_write_metadata =
       (\<lambda>p m fs. (Inr (), write_file (p @ ''/METADATA'') (MetadataFile m) fs)),
     replace_package = (\<lambda>p q fs. (Inl (OtherError ''OSError''), fs)),
     remove_tree = (\<lambda>d fs. (Inr (), remove_below d fs)),
     unlink_cached = (\<lambda>fs. (Inr (), fs)),
     urlopen_read = (\<lambda>a fs. (Inr ''body'', fs)),
     json_loads = (\<lambda>body. Inr release_without_assets),
     new_MetaData = \<lparr>third_party = \<lparr>url = [], version = [], tp_other = ()\<rparr>, md_other = ()\<rparr>,
     array_lt = (\<lambda>xs ys. Inl TypeError),
     repr = (\<lambda>v. ''...'')\<rparr>"

text \<open>The vendored package on disk, at version 1.0.\<close>

definition project_files :: "(string \<times> content) list" where
  "project_files =
    [(''third_party/r/METADATA'', MetadataFile example_metadata),
     (''third_party/r/README'', SourceFile ''r 1.0'')]"

text \<open>A payload of the release 1.1 whose only assets are not archives.\<close>

definition release_without_archives :: json where
  "release_without_archives =
    JObject [(''tag_name'', JStr ''1.1''),
             (''assets'', JArray [asset ''https://github.com/o/r/releases/download/1.1/r.sig'' 1,
                                  asset ''https://github.com/o/r/releases/download/1.1/notes.txt'' 5])]"

section \<open>Parsing the URL: results\<close>

lemma not_class_slash: "\<not> hyphen_or_word CHR ''/''"
  by (simp add: hyphen_or_word_def word_char_def)

lemma match_group_run:
  assumes "g \<noteq> []" and "list_all hyphen_or_word g"
  shows "match_group (g @ CHR ''/'' # s) = Some (g, CHR ''/'' # s)"
proof -
  have all: "\<forall>c\<in>set g. hyphen_or_word c"
    using assms(2) by (simp add: list_all_iff)
  have "takeWhile hyphen_or_word (g @ CHR ''/'' # s) = g"
    using all not_class_slash by (simp add: takeWhile_append2)
  moreover have "dropWhile hyphen_or_word (g @ CHR ''/'' # s) = CHR ''/'' # s"
    using all not_class_slash by (simp add: dropWhile_append2)
  ultimately show ?thesis
    using assms(1) by (simp add: match_group_def)
qed

lemma starts_with_append: "starts_with s p \<Longrightarrow> \<exists>t. s = p @ t"
  unfolding starts_with_def by (metis append_take_drop_id)

lemma match_releases:
  assumes "ow \<noteq> []" "rp \<noteq> []" "list_all hyphen_or_word ow" "list_all hyphen_or_word rp"
  shows "GITHUB_URL_RE_match
    (''https://github.com/'' @ ow @ ''/'' @ rp @ ''/releases/download/'' @ t) = Some (ow, rp)"
  using assms by (simp add: GITHUB_URL_RE_match_def match_group_run)

lemma match_archive:
  assumes "ow \<noteq> []" "rp \<noteq> []" "list_all hyphen_or_word ow" "list_all hyphen_or_word rp"
  shows "GITHUB_URL_RE_match
    (''https://github.com/'' @ ow @ ''/'' @ rp @ ''/archive/'' @ t) = Some (ow, rp)"
  using assms by (simp add: GITHUB_URL_RE_match_def match_group_run)

text \<open>Every text of one of the two shapes is matched, with the owner and the repository as groups.\<close>

lemma match_spec_shape:
  assumes "spec_archive_url ow rp s"
  shows "GITHUB_URL_RE_match s = Some (ow, rp)"
proof -
  from assms have ne:
    "ow \<noteq> []" "rp \<noteq> []" "list_all hyphen_or_word ow" "list_all hyphen_or_word rp"
    by (simp_all add: spec_archive_url_def)
  from assms consider
    (rel) "starts_with s (''https://github.com/'' @ ow @ ''/'' @ rp @ ''/releases/download/'')"
  | (arc) "starts_with s (''https://github.com/'' @ ow @ ''/'' @ rp @ ''/archive/'')"
    by (auto simp: spec_archive_url_def)
  then show ?thesis
  proof cases
    case rel
    then obtain t where
      "s = (''https://github.com/'' @ ow @ ''/'' @ rp @ ''/releases/download/'') @ t"
      using starts_with_append by blast
    then have "s = ''https://github.com/'' @ ow @ ''/'' @ rp @ ''/releases/download/'' @ t"
      by simp
    then show ?thesis using match_releases [OF ne] by simp
  next
    case arc
    then obtain t where "s = (''https://github.com/'' @ ow @ ''/'' @ rp @ ''/archive/'') @ t"
      using starts_with_append by blast
    then have "s = ''https://github.com/'' @ ow @ ''/'' @ rp @ ''/archive/'' @ t"
      by simp
    then show ?thesis using match_archive [OF ne] by simp
  qed
qed

text \<open>
  Construction from an archive URL of one of the two shapes gives an updater with exactly
  that owner and repository, and no payload yet.
\<close>

theorem init_spec_shape:
  assumes "url_type u = ARCHIVE" and "spec_archive_url ow rp (url_value u)"
  shows "GithubArchiveUpdater u p m =
    Inr \<lparr>proj_path = p, metadata = m, old_url = u, owner = Some ow, repo = Some rp,
         data = JNull\<rparr>"
  using assms by (simp add: GithubArchiveUpdater_def parse_url_def match_spec_shape)

theorem init_spec_shape_witness:
  "GithubArchiveUpdater
     \<lparr>url_type = ARCHIVE, url_value = ''https://github.com/foo/b-r_2/releases/download/v1/a.zip''\<rparr>
     ''third_party/bar'' 0 =
   Inr \<lparr>proj_path = ''third_party/bar'', metadata = 0,
        old_url = \<lparr>url_type = ARCHIVE,
                   url_value = ''https://github.com/foo/b-r_2/releases/download/v1/a.zip''\<rparr>,
        owner = Some ''foo'', repo = Some ''b-r_2'', data = JNull\<rparr>"
  using init_spec_shape [of
      "\<lparr>url_type = ARCHIVE, url_value = ''https://github.com/foo/b-r_2/releases/download/v1/a.zip''\<rparr>"
      "''foo''" "''b-r_2''" "''third_party/bar''" 0]
  by (simp add: spec_archive_url_def starts_with_def hyphen_or_word_def word_char_def)

text \<open>Construction from a URL of another kind fails with the invalid-kind error.\<close>

theorem init_wrong_kind:
  assumes "url_type u \<noteq> ARCHIVE"
  shows "GithubArchiveUpdater u p m =
    Inl (ValueError ''Only archive url from Github is supported.'')"
  using assms by (simp add: GithubArchiveUpdater_def parse_url_def)

theorem init_wrong_kind_witness:
  "GithubArchiveUpdater \<lparr>url_type = HOMEPAGE, url_value = ''https://github.com/foo/bar/archive/v1.zip''\<rparr>
     ''third_party/bar'' 0 =
   Inl (ValueError ''Only archive url from Github is supported.'')"
  using init_wrong_kind [of
      "\<lparr>url_type = HOMEPAGE, url_value = ''https://github.com/foo/bar/archive/v1.zip''\<rparr>"
      "''third_party/bar''" 0]
  by simp

lemma other_host_not_spec_shape:
  "\<not> spec_archive_url ow rp ''https://githubXcom/o/r/archive/v1.tar.gz''"
proof
  assume "spec_archive_url ow rp ''https://githubXcom/o/r/archive/v1.tar.gz''"
  then obtain q where
    "starts_with ''https://githubXcom/o/r/archive/v1.tar.gz'' (''https://github.com/'' @ q)"
    by (auto simp: spec_archive_url_def)
  then obtain t where
    "''https://githubXcom/o/r/archive/v1.tar.gz'' = (''https://github.com/'' @ q) @ t"
    using starts_with_append by blast
  then show False by simp
qed

text \<open>
  C2. Construction parses the URL once; an archive URL of one of the two shapes gives
  exactly its owner and repository, another kind fails with the invalid-kind error, and a
  value of neither shape fails with the unsupported-format error. The last part does not
  hold of the code: the dot of \<^verbatim>\<open>github.com\<close> is not escaped in the pattern, so the
  archive URL \<^verbatim>\<open>https://githubXcom/o/r/archive/v1.tar.gz\<close>, which has neither shape for
  any owner and repository, is accepted with the owner \<^verbatim>\<open>o\<close> and the repository \<^verbatim>\<open>r\<close>.
\<close>

theorem init_unescaped_dot:
  "GithubArchiveUpdater
     \<lparr>url_type = ARCHIVE, url_value = ''https://githubXcom/o/r/archive/v1.tar.gz''\<rparr> p m =
     Inr \<lparr>proj_path = p, metadata = m,
          old_url = \<lparr>url_type = ARCHIVE, url_value = ''https://githubXcom/o/r/archive/v1.tar.gz''\<rparr>,
          owner = Some ''o'', repo = Some ''r'', data = JNull\<rparr>
   \<and> \<not> spec_archive_url ow rp ''https://githubXcom/o/r/archive/v1.tar.gz''"
  using other_host_not_spec_shape
  by (simp add: GithubArchiveUpdater_def parse_url_def GITHUB_URL_RE_match_def match_group_def
      hyphen_or_word_def word_char_def)

lemma match_literal_Some: "match_literal p s = Some t \<Longrightarrow> s = p @ t"
  by (induction p s rule: match_literal.induct) (auto split: if_splits)

lemma match_dot_Some: "match_dot s = Some t \<Longrightarrow> \<exists>c. c \<noteq> CHR 0x0A \<and> s = c # t"
  by (cases s) (auto split: if_splits)

lemma match_group_Some:
  assumes "match_group s = Some (g, t)"
  shows "s = g @ t \<and> g \<noteq> [] \<and> list_all hyphen_or_word g"
proof -
  from assms have g: "g = takeWhile hyphen_or_word s" and t: "t = dropWhile hyphen_or_word s"
    and ne: "g \<noteq> []"
    by (auto simp: match_group_def Let_def split: if_splits)
  from g t have "s = g @ t" by simp
  moreover from g have "list_all hyphen_or_word g"
    by (auto simp: list_all_iff dest: set_takeWhileD)
  ultimately show ?thesis using ne by simp
qed

text \<open>The steps of the pattern, for any literal pieces: what a match says about the text.\<close>

lemma pattern_pieces:
  assumes "(case match_literal p1 s of None \<Rightarrow> None | Some s1 \<Rightarrow>
     case match_dot s1 of None \<Rightarrow> None | Some s2 \<Rightarrow>
     case match_literal p2 s2 of None \<Rightarrow> None | Some s3 \<Rightarrow>
     case match_group s3 of None \<Rightarrow> None | Some (g1, s4) \<Rightarrow>
     case match_literal p3 s4 of None \<Rightarrow> None | Some s5 \<Rightarrow>
     case match_group s5 of None \<Rightarrow> None | Some (g2, s6) \<Rightarrow>
     case match_literal p4 s6 of None \<Rightarrow> None | Some s7 \<Rightarrow>
     case match_literal p5 s7 of Some _ \<Rightarrow> Some (g1, g2) | None \<Rightarrow>
     case match_literal p6 s7 of Some _ \<Rightarrow> Some (g1, g2) | None \<Rightarrow> None) = Some (ow, rp)"
  shows "\<exists>c t. c \<noteq> CHR 0x0A \<and> ow \<noteq> [] \<and> rp \<noteq> [] \<and>
       list_all hyphen_or_word ow \<and> list_all hyphen_or_word rp \<and>
       (s = p1 @ c # p2 @ ow @ p3 @ rp @ p4 @ p5 @ t \<or>
        s = p1 @ c # p2 @ ow @ p3 @ rp @ p4 @ p6 @ t)"
proof -
  from assms obtain s1 where s1: "match_literal p1 s = Some s1"
    by (cases "match_literal p1 s") auto
  with assms obtain s2 where s2: "match_dot s1 = Some s2"
    by (cases "match_dot s1") auto
  with assms s1 obtain s3 where s3: "match_literal p2 s2 = Some s3"
    by (cases "match_literal p2 s2") auto
  with assms s1 s2 obtain g1 s4 where s4: "match_group s3 = Some (g1, s4)"
    by (cases "match_group s3") auto
  with assms s1 s2 s3 obtain s5 where s5: "match_literal p3 s4 = Some s5"
    by (cases "match_literal p3 s4") auto
  with assms s1 s2 s3 s4 obtain g2 s6 where s6: "match_group s5 = Some (g2, s6)"
    by (cases "match_group s5") auto
  with assms s1 s2 s3 s4 s5 obtain s7 where s7: "match_literal p4 s6 = Some s7"
    by (cases "match_literal p4 s6") auto
  from assms s1 s2 s3 s4 s5 s6 s7 have groups: "g1 = ow" "g2 = rp"
    by (auto split: option.splits)
  from assms s1 s2 s3 s4 s5 s6 s7 have tail:
    "(\<exists>t. match_literal p5 s7 = Some t) \<or> (\<exists>t. match_literal p6 s7 = Some t)"
    by (auto split: option.splits)
  from match_dot_Some [OF s2] obtain c where c: "c \<noteq> CHR 0x0A" "s1 = c # s2"
    by blast
  have pre: "s = p1 @ c # p2 @ ow @ p3 @ rp @ p4 @ s7"
    using match_literal_Some [OF s1] c(2) match_literal_Some [OF s3]
      match_group_Some [OF s4] match_literal_Some [OF s5] match_group_Some [OF s6]
      match_literal_Some [OF s7] groups
    by simp
  have cls: "ow \<noteq> []" "rp \<noteq> []" "list_all hyphen_or_word ow" "list_all hyphen_or_word rp"
    using match_group_Some [OF s4] match_group_Some [OF s6] groups by simp_all
  from tail show ?thesis
  proof
    assume "\<exists>t. match_literal p5 s7 = Some t"
    then obtain t where "s7 = p5 @ t"
      using match_literal_Some by blast
    with pre have "s = p1 @ c # p2 @ ow @ p3 @ rp @ p4 @ p5 @ t"
      by simp
    with c(1) cls show ?thesis by blast
  next
    assume "\<exists>t. match_literal p6 s7 = Some t"
    then obtain t where "s7 = p6 @ t"
      using match_literal_Some by blast
    with pre have "s = p1 @ c # p2 @ ow @ p3 @ rp @ p4 @ p6 @ t"
      by simp
    with c(1) cls show ?thesis by blast
  qed
qed


lemma match_any_host:
  assumes "c \<noteq> CHR 0x0A" "ow \<noteq> []" "rp \<noteq> []"
    "list_all hyphen_or_word ow" "list_all hyphen_or_word rp"
  shows "GITHUB_URL_RE_match
      (''https://github'' @ c # ''com/'' @ ow @ ''/'' @ rp @ ''/'' @ ''releases/download/'' @ t)
      = Some (ow, rp)"
    and "GITHUB_URL_RE_match
      (''https://github'' @ c # ''com/'' @ ow @ ''/'' @ rp @ ''/'' @ ''archive/'' @ t)
      = Some (ow, rp)"
  using assms by (simp_all add: GITHUB_URL_RE_match_def match_group_run)

text \<open>
  The texts the pattern matches, exactly: \<^verbatim>\<open>https://github\<close>, any one character but a
  line feed, \<^verbatim>\<open>com/\<close>, an owner, \<^verbatim>\<open>/\<close>, a repository, \<^verbatim>\<open>/\<close>, and
  \<^verbatim>\<open>releases/download/\<close> or \<^verbatim>\<open>archive/\<close>, followed by anything; the groups are the
  owner and the repository. But for the character in the place of the dot these are the
  two shapes of the specification.
\<close>

theorem GITHUB_URL_RE_match_iff:
  "GITHUB_URL_RE_match s = Some (ow, rp) \<longleftrightarrow>
    (\<exists>c t. c \<noteq> CHR 0x0A \<and> ow \<noteq> [] \<and> rp \<noteq> [] \<and>
       list_all hyphen_or_word ow \<and> list_all hyphen_or_word rp \<and>
       (s = ''https://github'' @ c # ''com/'' @ ow @ ''/'' @ rp @ ''/'' @ ''releases/download/'' @ t \<or>
        s = ''https://github'' @ c # ''com/'' @ ow @ ''/'' @ rp @ ''/'' @ ''archive/'' @ t))"
proof
  assume "GITHUB_URL_RE_match s = Some (ow, rp)"
  then show "\<exists>c t. c \<noteq> CHR 0x0A \<and> ow \<noteq> [] \<and> rp \<noteq> [] \<and>
       list_all hyphen_or_word ow \<and> list_all hyphen_or_word rp \<and>
       (s = ''https://github'' @ c # ''com/'' @ ow @ ''/'' @ rp @ ''/'' @ ''releases/download/'' @ t \<or>
        s = ''https://github'' @ c # ''com/'' @ ow @ ''/'' @ rp @ ''/'' @ ''archive/'' @ t)"
    unfolding GITHUB_URL_RE_match_def by (rule pattern_pieces)
next
  assume "\<exists>c t. c \<noteq> CHR 0x0A \<and> ow \<noteq> [] \<and> rp \<noteq> [] \<and>
       list_all hyphen_or_word ow \<and> list_all hyphen_or_word rp \<and>
       (s = ''https://github'' @ c # ''com/'' @ ow @ ''/'' @ rp @ ''/'' @ ''releases/download/'' @ t \<or>
        s = ''https://github'' @ c # ''com/'' @ ow @ ''/'' @ rp @ ''/'' @ ''archive/'' @ t)"
  then obtain c t where c: "c \<noteq> CHR 0x0A" "ow \<noteq> []" "rp \<noteq> []"
      "list_all hyphen_or_word ow" "list_all hyphen_or_word rp"
    and shape:
      "s = ''https://github'' @ c # ''com/'' @ ow @ ''/'' @ rp @ ''/'' @ ''releases/download/'' @ t \<or>
       s = ''https://github'' @ c # ''com/'' @ ow @ ''/'' @ rp @ ''/'' @ ''archive/'' @ t"
    by blast
  from shape show "GITHUB_URL_RE_match s = Some (ow, rp)"
  proof
    assume "s = ''https://github'' @ c # ''com/'' @ ow @ ''/'' @ rp @ ''/'' @ ''releases/download/'' @ t"
    then show ?thesis using match_any_host(1) [OF c] by simp
  next
    assume "s = ''https://github'' @ c # ''com/'' @ ow @ ''/'' @ rp @ ''/'' @ ''archive/'' @ t"
    then show ?thesis using match_any_host(2) [OF c] by simp
  qed
qed

section \<open>Selecting the asset: results\<close>

lemma is_asset_fields:
  assumes "is_asset E a"
  obtains kvs u keep n where "a = JObject kvs"
    and "map_of kvs ''browser_download_url'' = Some u"
    and "is_supported_archive E u = Inr keep"
    and "map_of kvs ''size'' = Some (JInt n)"
  using assms by (cases a) (auto split: option.splits sum.splits json.splits)

lemma asset_reads:
  assumes "is_asset E a"
  shows "subscript a ''browser_download_url'' = Inr (asset_url a)"
    and "get_method a ''browser_download_url'' = Inr (asset_url a)"
    and "subscript a ''size'' = Inr (JInt (asset_size a))"
    and "is_supported_archive E (asset_url a) = Inr (asset_supported E a)"
    and "a \<noteq> JNull"
  using assms by (auto elim!: is_asset_fields simp: asset_url_def asset_size_def asset_supported_def)

lemma filter_supported_assets:
  assumes "\<forall>a\<in>set as. is_asset E a"
  shows "filter_supported E as = Inr (filter (asset_supported E) as)"
  using assms
proof (induction as)
  case Nil
  then show ?case by simp
next
  case (Cons a as)
  then have "is_asset E a" and "filter_supported E as = Inr (filter (asset_supported E) as)"
    by simp_all
  then show ?case
    using asset_reads(1,4) [of E a] by simp
qed

lemma py_lt_sizes: "py_lt E (JInt x) (JInt y) = Inr (x < y)"
  by (simp add: py_lt_def)

lemma min_scan_first_minimum:
  assumes "is_asset E best" and "\<forall>a\<in>set as. is_asset E a"
  shows "\<exists>pre m post. best # as = pre @ m # post
      \<and> (\<forall>a\<in>set pre. asset_size m < asset_size a)
      \<and> (\<forall>a\<in>set post. asset_size m \<le> asset_size a)
      \<and> min_scan E best (JInt (asset_size best)) as = Inr m"
  using assms
proof (induction as arbitrary: best)
  case Nil
  show ?case
    by (rule exI [of _ "[]"], rule exI [of _ best], rule exI [of _ "[]"]) simp
next
  case (Cons a as)
  then have a: "is_asset E a" and rest: "\<forall>x\<in>set as. is_asset E x"
    by simp_all
  show ?case
  proof (cases "asset_size a < asset_size best")
    case True
    from Cons.IH [OF a rest] obtain pre m post where
      split: "a # as = pre @ m # post"
      and before: "\<forall>x\<in>set pre. asset_size m < asset_size x"
      and after: "\<forall>x\<in>set post. asset_size m \<le> asset_size x"
      and scan: "min_scan E a (JInt (asset_size a)) as = Inr m"
      by blast
    have "asset_size m \<le> asset_size a"
    proof (cases pre)
      case Nil
      with split show ?thesis by simp
    next
      case (Cons p ps)
      with split before show ?thesis by auto
    qed
    with True have "asset_size m < asset_size best" by simp
    with before have "\<forall>x\<in>set (best # pre). asset_size m < asset_size x" by simp
    moreover from split have "best # a # as = (best # pre) @ m # post" by simp
    moreover have "min_scan E best (JInt (asset_size best)) (a # as) = Inr m"
      using True scan asset_reads(3) [OF a] by (simp add: py_lt_sizes)
    ultimately show ?thesis using after by blast
  next
    case False
    from Cons.IH [OF Cons.prems(1) rest] obtain pre m post where
      split: "best # as = pre @ m # post"
      and before: "\<forall>x\<in>set pre. asset_size m < asset_size x"
      and after: "\<forall>x\<in>set post. asset_size m \<le> asset_size x"
      and scan: "min_scan E best (JInt (asset_size best)) as = Inr m"
      by blast
    have scan': "min_scan E best (JInt (asset_size best)) (a # as) = Inr m"
      using False scan asset_reads(3) [OF a] by (simp add: py_lt_sizes)
    show ?thesis
    proof (cases pre)
      case Nil
      with split have m: "m = best" and post: "post = as" by simp_all
      from False m have "asset_size m \<le> asset_size a" by simp
      with after have "\<forall>x\<in>set (a # post). asset_size m \<le> asset_size x" by simp
      moreover from m post have "best # a # as = [] @ m # (a # post)" by simp
      ultimately show ?thesis using scan' by (metis empty_iff list.set(1))
    next
      case (Cons p ps)
      with split have p: "p = best" and as: "as = ps @ m # post" by simp_all
      from before Cons p have "asset_size m < asset_size best" by simp
      with False have "asset_size m < asset_size a" by simp
      with before Cons p have "\<forall>x\<in>set (best # a # ps). asset_size m < asset_size x" by simp
      moreover from as have "best # a # as = (best # a # ps) @ m # post" by simp
      ultimately show ?thesis using scan' after by blast
    qed
  qed
qed

lemma min_by_size_first_minimum:
  assumes "\<forall>a\<in>set as. is_asset E a" and "as \<noteq> []"
  shows "\<exists>pre m post. as = pre @ m # post
      \<and> (\<forall>a\<in>set pre. asset_size m < asset_size a)
      \<and> (\<forall>a\<in>set post. asset_size m \<le> asset_size a)
      \<and> min_by_size E as = Inr m"
proof (cases as)
  case Nil
  with assms(2) show ?thesis by simp
next
  case (Cons b bs)
  with assms(1) have b: "is_asset E b" and bs: "\<forall>a\<in>set bs. is_asset E a" by simp_all
  from min_scan_first_minimum [OF b bs] Cons asset_reads(3) [OF b] show ?thesis
    by simp
qed

text \<open>
  C1. For a payload whose assets are asset records, the assets are filtered to those with
  a supported download URL, in the listed order, and the download URL returned is that of
  a supported asset \<open>m\<close> of minimum size: every supported asset listed before \<open>m\<close> is
  strictly larger and every one listed after it is at least as large, so of several
  smallest assets the first listed is taken.
\<close>

theorem latest_url_smallest_supported:
  assumes "subscript (data self) ''assets'' = Inr (JArray assets)"
    and "\<forall>a\<in>set assets. is_asset E a"
    and "filter (asset_supported E) assets \<noteq> []"
  shows "\<exists>pre m post. filter (asset_supported E) assets = pre @ m # post
      \<and> (\<forall>a\<in>set pre. asset_size m < asset_size a)
      \<and> (\<forall>a\<in>set post. asset_size m \<le> asset_size a)
      \<and> latest_url E self = Inr (asset_url m)"
proof -
  let ?sup = "filter (asset_supported E) assets"
  have sup: "supported_assets E self = Inr ?sup"
    using assms(1,2) by (simp add: supported_assets_def filter_supported_assets)
  have all: "\<forall>a\<in>set ?sup. is_asset E a"
    using assms(2) by simp
  from min_by_size_first_minimum [OF all assms(3)] obtain pre m post where
    split: "?sup = pre @ m # post"
    and before: "\<forall>a\<in>set pre. asset_size m < asset_size a"
    and after: "\<forall>a\<in>set post. asset_size m \<le> asset_size a"
    and least: "min_by_size E ?sup = Inr m"
    by blast
  from split have "m \<in> set ?sup" by simp
  with all have m: "is_asset E m" by blast
  have "latest_url E self = Inr (asset_url m)"
    using sup least asset_reads(2,5) [OF m] by (simp add: latest_url_def)
  with split before after show ?thesis by blast
qed

text \<open>
  C3. For a payload whose assets are asset records none of which has a supported download
  URL (in particular for an empty asset list), the URL returned is the source tarball URL
  \<^verbatim>\<open>https://github.com/<owner>/<repo>/archive/<tag_name>.tar.gz\<close> made of the owner and
  the repository of the instance and the tag of the payload.
\<close>

theorem latest_url_fallback:
  assumes "subscript (data self) ''assets'' = Inr (JArray assets)"
    and "\<forall>a\<in>set assets. is_asset E a"
    and "\<forall>a\<in>set assets. \<not> asset_supported E a"
    and "owner self = Some ow" and "repo self = Some rp"
    and "subscript (data self) ''tag_name'' = Inr (JStr tag)"
  shows "latest_url E self =
    Inr (JStr (''https://github.com/'' @ ow @ ''/'' @ rp @ ''/archive/'' @ tag @ ''.tar.gz''))"
proof -
  have "filter (asset_supported E) assets = []"
    using assms(3) by (simp add: filter_empty_conv)
  then have none: "supported_assets E self = Inr []"
    using assms(1,2) by (simp add: supported_assets_def filter_supported_assets)
  have tag: "get_method (data self) ''tag_name'' = Inr (JStr tag)"
    using assms(6) by (cases "data self") (auto split: option.splits)
  show ?thesis
    using none tag assms(4,5) by (simp add: latest_url_def)
qed

theorem latest_url_smallest_supported_witness:
  "list_all (is_asset (recording_env no_failure (Inr JNull)))
     [asset ''https://github.com/o/r/releases/download/1.1/r-all.zip'' 50,
      asset ''https://github.com/o/r/releases/download/1.1/r.tar.gz'' 10,
      asset ''https://github.com/o/r/releases/download/1.1/r.zip'' 10,
      asset ''https://github.com/o/r/releases/download/1.1/r.sig'' 1]
   \<and> (\<exists>pre m post.
        filter (asset_supported (recording_env no_failure (Inr JNull)))
          [asset ''https://github.com/o/r/releases/download/1.1/r-all.zip'' 50,
           asset ''https://github.com/o/r/releases/download/1.1/r.tar.gz'' 10,
           asset ''https://github.com/o/r/releases/download/1.1/r.zip'' 10,
           asset ''https://github.com/o/r/releases/download/1.1/r.sig'' 1] = pre @ m # post
        \<and> (\<forall>a\<in>set pre. asset_size m < asset_size a)
        \<and> (\<forall>a\<in>set post. asset_size m \<le> asset_size a)
        \<and> latest_url (recording_env no_failure (Inr JNull)) (example_updater release_with_assets)
            = Inr (asset_url m))
   \<and> latest_url (recording_env no_failure (Inr JNull)) (example_updater release_with_assets)
        = Inr (JStr ''https://github.com/o/r/releases/download/1.1/r.tar.gz'')"
proof -
  let ?E = "recording_env no_failure (Inr JNull)"
  let ?assets = "[asset ''https://github.com/o/r/releases/download/1.1/r-all.zip'' 50,
      asset ''https://github.com/o/r/releases/download/1.1/r.tar.gz'' 10,
      asset ''https://github.com/o/r/releases/download/1.1/r.zip'' 10,
      asset ''https://github.com/o/r/releases/download/1.1/r.sig'' 1]"
  have payload: "subscript (data (example_updater release_with_assets)) ''assets'' = Inr (JArray ?assets)"
    by (simp add: example_updater_def release_with_assets_def)
  have assets: "list_all (is_asset ?E) ?assets"
    by (simp add: asset_def recording_env_def)
  then have all: "\<forall>a\<in>set ?assets. is_asset ?E a"
    unfolding list_all_iff .
  have some: "filter (asset_supported ?E) ?assets \<noteq> []"
    by (simp add: asset_supported_def asset_url_def asset_def recording_env_def ends_with_def)
  have run: "latest_url ?E (example_updater release_with_assets)
      = Inr (JStr ''https://github.com/o/r/releases/download/1.1/r.tar.gz'')"
    by (simp add: latest_url_def supported_assets_def recording_env_def example_updater_def
        release_with_assets_def asset_def ends_with_def py_lt_def)
  from latest_url_smallest_supported [OF payload all some] assets run show ?thesis
    by blast
qed

theorem latest_url_fallback_witness:
  "latest_url (recording_env no_failure (Inr JNull)) (example_updater release_without_archives)
     = Inr (JStr ''https://github.com/o/r/archive/1.1.tar.gz'')
   \<and> latest_url (recording_env no_failure (Inr JNull))
     \<lparr>proj_path = ''third_party/bar'', metadata = 0,
      old_url = \<lparr>url_type = ARCHIVE, url_value = ''https://github.com/foo/bar/archive/v1.0.tar.gz''\<rparr>,
      owner = Some ''foo'', repo = Some ''bar'',
      data = JObject [(''tag_name'', JStr ''v2.0''), (''assets'', JArray [])]\<rparr>
     = Inr (JStr ''https://github.com/foo/bar/archive/v2.0.tar.gz'')"
proof -
  let ?E = "recording_env no_failure (Inr JNull)"
  let ?assets = "[asset ''https://github.com/o/r/releases/download/1.1/r.sig'' 1,
                  asset ''https://github.com/o/r/releases/download/1.1/notes.txt'' 5]"
  let ?self = "example_updater release_without_archives"
  have payload: "subscript (data ?self) ''assets'' = Inr (JArray ?assets)"
    by (simp add: example_updater_def release_without_archives_def)
  have records: "\<forall>a\<in>set ?assets. is_asset ?E a"
    by (simp add: asset_def recording_env_def)
  have unsupported: "\<forall>a\<in>set ?assets. \<not> asset_supported ?E a"
    by (simp add: asset_supported_def asset_url_def asset_def recording_env_def ends_with_def)
  have fields: "owner ?self = Some ''o''" "repo ?self = Some ''r''"
    by (simp_all add: example_updater_def)
  have tag: "subscript (data ?self) ''tag_name'' = Inr (JStr ''1.1'')"
    by (simp add: example_updater_def release_without_archives_def)
  have listed: "latest_url ?E ?self = Inr (JStr ''https://github.com/o/r/archive/1.1.tar.gz'')"
    using latest_url_fallback [OF payload records unsupported fields tag] by simp
  have empty: "latest_url ?E
     \<lparr>proj_path = ''third_party/bar'', metadata = 0,
      old_url = \<lparr>url_type = ARCHIVE, url_value = ''https://github.com/foo/bar/archive/v1.0.tar.gz''\<rparr>,
      owner = Some ''foo'', repo = Some ''bar'',
      data = JObject [(''tag_name'', JStr ''v2.0''), (''assets'', JArray [])]\<rparr>
     = Inr (JStr ''https://github.com/foo/bar/archive/v2.0.tar.gz'')"
    using latest_url_fallback [where E = ?E and assets = "[]" and ow = "''foo''" and rp = "''bar''"
        and tag = "''v2.0''"
        and self = "\<lparr>proj_path = ''third_party/bar'', metadata = 0,
          old_url = \<lparr>url_type = ARCHIVE,
                     url_value = ''https://github.com/foo/bar/archive/v1.0.tar.gz''\<rparr>,
          owner = Some ''foo'', repo = Some ''bar'',
          data = JObject [(''tag_name'', JStr ''v2.0''), (''assets'', JArray [])]\<rparr>"]
    by simp
  from listed empty show ?thesis by simp
qed

section \<open>Writing the metadata: results\<close>

lemma rewrite_urls_str:
  "rewrite_urls old (JStr new) us = Inr (map (\<lambda>u. if u = old then u\<lparr>url_value := new\<rparr> else u) us)"
  by (induction us) simp_all

text \<open>
  C4, as amended. For a metadata record, a payload whose tag is a string and a selected
  URL that is a string, the record handed to the metadata store is a new message on the
  heap with the version set to the tag and with every URL entry that equals the original
  input URL rewritten to the selected URL, its kind kept: exactly one entry when the
  record lists that URL once. Every other URL entry and every other field is as in the
  caller's record.
\<close>

theorem write_metadata_patch:
  assumes "metadata self < length h"
    and "subscript (data self) ''tag_name'' = Inr (JStr tag)"
  shows "\<exists>updated.
      write_metadata E self (JStr new) path h w =
        (fst (fileutils_write_metadata E path updated w), h @ [updated],
         snd (fileutils_write_metadata E path updated w))
    \<and> version (third_party updated) = tag
    \<and> url (third_party updated) =
        map (\<lambda>u. if u = old_url self then u\<lparr>url_value := new\<rparr> else u)
          (url (third_party (h ! metadata self)))
    \<and> tp_other (third_party updated) = tp_other (third_party (h ! metadata self))
    \<and> md_other updated = md_other (h ! metadata self)"
  using assms
  by (simp add: write_metadata_def Let_def nth_append rewrite_urls_str split: prod.splits)

text \<open>Whatever the outcome, the heap grows by exactly the new message.\<close>

lemma write_metadata_heap:
  assumes "write_metadata E self new path h w = (res, h', w')"
  shows "\<exists>m. h' = h @ [m]"
  using assms
  by (auto simp: write_metadata_def Let_def nth_append
      split: if_splits sum.splits json.splits prod.splits)

lemma write_metadata_done:
  assumes "write_metadata E self new path h w = (Inr done, h', w')"
  shows "\<exists>updated. fileutils_write_metadata E path updated w = (Inr (), w') \<and> h' = h @ [updated]
    \<and> subscript (data self) ''tag_name'' = Inr (JStr (version (third_party updated)))"
  using assms
  by (auto simp: write_metadata_def Let_def nth_append
      split: if_splits sum.splits json.splits prod.splits)

section \<open>The update: results\<close>

lemma update_try_heap:
  assumes "update_try E self latest h w = (res, tmp, h', w')"
  shows "\<exists>fresh. h' = h @ fresh"
  using assms
  by (auto simp: update_try_def split: prod.splits sum.splits dest: write_metadata_heap)

text \<open>
  C7. \<^verbatim>\<open>update()\<close> never assigns to a message that exists before the call: however
  the call ends, the heap after it is the heap before it followed by new messages, so
  the record the instance refers to is the same message with the same content. The patch
  is applied to the new message, the copy.
\<close>

theorem update_keeps_records:
  assumes "update E self h w = (res, h', w')"
  shows "(\<exists>fresh. h' = h @ fresh) \<and>
    (metadata self < length h \<longrightarrow> h' ! metadata self = h ! metadata self)"
proof -
  have "\<exists>fresh. h' = h @ fresh"
  proof (cases "latest_url E self")
    case (Inl e)
    with assms show ?thesis by (simp add: update_def)
  next
    case (Inr latest)
    obtain r t h3 w3 where run: "update_try E self latest h w = (r, t, h3, w3)"
      by (metis prod_cases4)
    with assms Inr have "h' = h3" by (simp add: update_def)
    with update_try_heap [OF run] show ?thesis by simp
  qed
  then show ?thesis by (auto simp: nth_append)
qed

text \<open>
  C5, as amended. When the asset is selected, downloaded and its root found, the metadata
  write succeeds and the package replacement then raises, \<^verbatim>\<open>update()\<close> ends with
  that exception, after the cleanup. The metadata store was called on the updated record
  (its version is the tag of the payload) for the package root and succeeded, the
  replacement ran in the world the store left, and after the failed replacement only the
  two cleanup calls are made: \<^verbatim>\<open>update()\<close> makes no call to undo the write. Whether
  the written metadata is still there after the cleanup is up to the collaborators.
\<close>

theorem update_replace_failure:
  assumes "latest_url E self = Inr latest"
    and "download_and_extract E latest w = (Inr tmp, w1)"
    and "find_archive_root E tmp w1 = (Inr pkg, w2)"
    and "write_metadata E self latest pkg h w2 = (Inr (), h3, w3)"
    and "replace_package E pkg (proj_path self) w3 = (Inl e, w4)"
  shows "update E self h w = (Inl e, h3, urlcleanup E (rmtree E (Some tmp) w4))
    \<and> (\<exists>updated. fileutils_write_metadata E pkg updated w2 = (Inr (), w3) \<and> h3 = h @ [updated]
          \<and> subscript (data self) ''tag_name'' = Inr (JStr (version (third_party updated))))"
proof -
  have "update E self h w = (Inl e, h3, urlcleanup E (rmtree E (Some tmp) w4))"
    using assms by (simp add: update_def update_try_def cleanup_def)
  with write_metadata_done [OF assms(4)] show ?thesis by simp
qed

text \<open>
  C6, as amended. An exception of the asset selection, which runs before the
  \<^verbatim>\<open>try\<close> statement, ends \<^verbatim>\<open>update()\<close> with the heap and the world as they were:
  no cleanup call is made. Once the asset is selected, on every way out of the body (the
  download, the search for the root, the metadata write or the replacement raises, or
  the replacement returns) the removal of \<^verbatim>\<open>temporary_dir\<close> is attempted and then the
  download cache is cleared. \<^verbatim>\<open>temporary_dir\<close> is the directory the download returned,
  and \<open>None\<close> when the download raised. The outcome of the body is the outcome of the
  call whether or not the removal or the unlinking of the cache fails: a failure of the
  cleanup is dropped.
\<close>

theorem update_cleanup:
  "(latest_url E self = Inl sel_err \<longrightarrow> update E self h w = (Inl sel_err, h, w))
  \<and> (latest_url E self = Inr latest \<and> download_and_extract E latest w = (Inl dl_err, wd) \<longrightarrow>
       update E self h w =
         (Inl dl_err, h, snd (unlink_cached E (snd (remove_tree E None wd)))))
  \<and> (latest_url E self = Inr latest \<and> download_and_extract E latest w = (Inr tmp, wa) \<and>
     find_archive_root E tmp wa = (Inl root_err, wr) \<longrightarrow>
       update E self h w =
         (Inl root_err, h, snd (unlink_cached E (snd (remove_tree E (Some tmp) wr)))))
  \<and> (latest_url E self = Inr latest \<and> download_and_extract E latest w = (Inr tmp, wa) \<and>
     find_archive_root E tmp wa = (Inr pkg, wb) \<and>
     write_metadata E self latest pkg h wb = (Inl md_err, hm, wm) \<longrightarrow>
       update E self h w =
         (Inl md_err, hm, snd (unlink_cached E (snd (remove_tree E (Some tmp) wm)))))
  \<and> (latest_url E self = Inr latest \<and> download_and_extract E latest w = (Inr tmp, wa) \<and>
     find_archive_root E tmp wa = (Inr pkg, wb) \<and>
     write_metadata E self latest pkg h wb = (Inr (), hc, wc) \<and>
     replace_package E pkg (proj_path self) wc = (res, we) \<longrightarrow>
       update E self h w =
         (res, hc, snd (unlink_cached E (snd (remove_tree E (Some tmp) we)))))"
  by (simp add: update_def update_try_def cleanup_def rmtree_def urlcleanup_def)

text \<open>
  C10, as amended. On an instance that holds no payload (\<^verbatim>\<open>self.data\<close> is \<open>None\<close>, as
  on a newly constructed one), \<^verbatim>\<open>update()\<close> raises \<^verbatim>\<open>TypeError\<close> when it subscripts
  the payload, before any collaborator is called: the heap and the world are as they
  were.
\<close>

theorem update_without_payload:
  assumes "data self = JNull"
  shows "update E self h w = (Inl TypeError, h, w)"
  using assms by (simp add: update_def latest_url_def supported_assets_def)

text \<open>A newly constructed instance holds no payload.\<close>

lemma init_no_payload:
  assumes "GithubArchiveUpdater u p m = Inr self"
  shows "data self = JNull"
  using assms
  by (auto simp: GithubArchiveUpdater_def parse_url_def split: if_splits option.splits)

section \<open>The version methods: results\<close>

text \<open>
  C8. \<^verbatim>\<open>get_latest_version()\<close> makes one request, to
  \<^verbatim>\<open>https://api.github.com/repos/<owner>/<repo>/releases/latest\<close>, and the world after
  the call is the world after that request. When the request raises, or the body does
  not parse, the call ends with that exception and the instance is unchanged. When the
  body parses to an object, the object is stored on the instance, and the call returns
  the value of its \<^verbatim>\<open>tag_name\<close> or, when it has none, raises \<^verbatim>\<open>KeyError\<close>.
\<close>

theorem get_latest_version_cases:
  assumes "owner self = Some ow" and "repo self = Some rp"
  shows "let address = ''https://api.github.com/repos/'' @ ow @ ''/'' @ rp @ ''/releases/latest'' in
    (urlopen_read E address w = (Inl net_err, wn) \<longrightarrow>
       get_latest_version E self w = (Inl net_err, self, wn))
  \<and> (urlopen_read E address w = (Inr body, wa) \<and> json_loads E body = Inl parse_err \<longrightarrow>
       get_latest_version E self w = (Inl parse_err, self, wa))
  \<and> (urlopen_read E address w = (Inr body, wa) \<and> json_loads E body = Inr (JObject kvs) \<and>
     map_of kvs ''tag_name'' = Some tag \<longrightarrow>
       get_latest_version E self w = (Inr tag, self\<lparr>data := JObject kvs\<rparr>, wa))
  \<and> (urlopen_read E address w = (Inr body, wa) \<and> json_loads E body = Inr (JObject kvs) \<and>
     map_of kvs ''tag_name'' = None \<longrightarrow>
       get_latest_version E self w =
         (Inl (KeyError ''tag_name''), self\<lparr>data := JObject kvs\<rparr>, wa))"
  using assms by (simp add: get_latest_version_def Let_def)

text \<open>
  C9. \<^verbatim>\<open>get_current_version()\<close> returns the version string of the record the
  instance refers to. It takes no world and returns none, and it gives the same result
  on the instance after a call of \<^verbatim>\<open>get_latest_version()\<close>, whatever that call did.
\<close>

theorem get_current_version_read:
  "(metadata self < length h \<longrightarrow>
      get_current_version self h = Inr (version (third_party (h ! metadata self))))
  \<and> (get_latest_version E self w = (res, self', w') \<longrightarrow>
      get_current_version self' h = get_current_version self h)"
  by (auto simp: get_current_version_def get_latest_version_def Let_def
      split: prod.splits sum.splits)


section \<open>Runs on the example\<close>

lemmas example_defs =
  example_updater_def release_without_assets_def example_metadata_def example_updated_def
  example_url_def example_latest_def duplicate_metadata_def recording_env_def raise_or_def
  no_failure_def failing_def

lemma recording_calls:
  "download_and_extract (recording_env fail parsed) u = raise_or fail (Download u) ''/tmp/dl''"
  "find_archive_root (recording_env fail parsed) d = raise_or fail (FindRoot d) (d @ ''/root'')"
  "fileutils_write_metadata (recording_env fail parsed) p m = raise_or fail (WriteMetadata p m) ()"
  "replace_package (recording_env fail parsed) p q = raise_or fail (ReplacePackage p q) ()"
  "rmtree (recording_env fail parsed) t w = w @ [Rmtree t]"
  "urlcleanup (recording_env fail parsed) w = w @ [Urlcleanup]"
  "remove_tree (recording_env fail parsed) t = raise_or fail (Rmtree t) ()"
  "unlink_cached (recording_env fail parsed) = raise_or fail Urlcleanup ()"
  "urlopen_read (recording_env fail parsed) a = raise_or fail (Urlopen a) ''body''"
  "json_loads (recording_env fail parsed) body = parsed"
  by (simp_all add: recording_env_def rmtree_def urlcleanup_def raise_or_def)

lemma example_updater_fields:
  "proj_path (example_updater p) = ''third_party/r''"
  "metadata (example_updater p) = 0"
  "old_url (example_updater p) = example_url"
  "owner (example_updater p) = Some ''o''"
  "repo (example_updater p) = Some ''r''"
  "data (example_updater p) = p"
  by (simp_all add: example_updater_def)

lemmas run_defs =
  update_def update_try_def cleanup_def recording_calls raise_or_def failing_def no_failure_def
  example_updater_fields

lemma example_write:
  "write_metadata (recording_env fail parsed) (example_updater release_without_assets)
     (JStr example_latest) ''/tmp/dl/root'' [example_metadata] w =
     (case fail (WriteMetadata ''/tmp/dl/root'' example_updated) of Some e \<Rightarrow> Inl e | None \<Rightarrow> Inr (),
      [example_metadata, example_updated], w @ [WriteMetadata ''/tmp/dl/root'' example_updated])"
  by (simp add: example_defs write_metadata_def Let_def)

lemma example_latest_url:
  "latest_url (recording_env fail parsed) (example_updater release_without_assets) =
     Inr (JStr example_latest)"
  by (simp add: example_defs latest_url_def supported_assets_def)

theorem write_metadata_patch_witness:
  "write_metadata (recording_env no_failure (Inr JNull)) (example_updater release_without_assets)
     (JStr example_latest) ''/tmp/dl/root'' [example_metadata] [] =
     (Inr (), [example_metadata, example_updated], [WriteMetadata ''/tmp/dl/root'' example_updated])"
  using write_metadata_patch [where self = "example_updater release_without_assets"
      and h = "[example_metadata]" and tag = "''1.1''"
      and E = "recording_env no_failure (Inr JNull)" and new = example_latest
      and path = "''/tmp/dl/root''" and w = "[]"]
  by (simp add: example_defs write_metadata_def Let_def)

text \<open>
  Against C4 as it is stated: on a record that lists the archive URL twice, both entries
  are rewritten, not exactly one.
\<close>

theorem write_metadata_duplicates:
  "write_metadata (recording_env no_failure (Inr JNull)) (example_updater release_without_assets)
     (JStr example_latest) ''/tmp/dl/root'' [duplicate_metadata] [] =
     (Inr (),
      [duplicate_metadata,
       \<lparr>third_party =
          \<lparr>url = [\<lparr>url_type = ARCHIVE, url_value = example_latest\<rparr>,
                  \<lparr>url_type = ARCHIVE, url_value = example_latest\<rparr>],
           version = ''1.1'', tp_other = ()\<rparr>,
        md_other = ()\<rparr>],
      [WriteMetadata ''/tmp/dl/root''
        \<lparr>third_party =
          \<lparr>url = [\<lparr>url_type = ARCHIVE, url_value = example_latest\<rparr>,
                  \<lparr>url_type = ARCHIVE, url_value = example_latest\<rparr>],
           version = ''1.1'', tp_other = ()\<rparr>,
        md_other = ()\<rparr>])
   \<and> url (third_party duplicate_metadata) = [example_url, example_url]
   \<and> example_url \<noteq> \<lparr>url_type = ARCHIVE, url_value = example_latest\<rparr>"
  by (simp add: example_defs write_metadata_def Let_def)

theorem update_keeps_records_witness:
  "update (recording_env no_failure (Inr JNull)) (example_updater release_without_assets)
     [example_metadata] [] =
     (Inr (), [example_metadata, example_updated],
      [Download (JStr example_latest), FindRoot ''/tmp/dl'',
       WriteMetadata ''/tmp/dl/root'' example_updated,
       ReplacePackage ''/tmp/dl/root'' ''third_party/r'', Rmtree (Some ''/tmp/dl''), Urlcleanup])
   \<and> [example_metadata, example_updated] ! metadata (example_updater release_without_assets)
       = example_metadata"
proof -
  have run: "update (recording_env no_failure (Inr JNull))
      (example_updater release_without_assets) [example_metadata] [] =
     (Inr (), [example_metadata, example_updated],
      [Download (JStr example_latest), FindRoot ''/tmp/dl'',
       WriteMetadata ''/tmp/dl/root'' example_updated,
       ReplacePackage ''/tmp/dl/root'' ''third_party/r'', Rmtree (Some ''/tmp/dl''), Urlcleanup])"
    by (simp add: run_defs example_latest_url example_write)
  from update_keeps_records [OF run] run show ?thesis
    by (simp add: example_updater_fields)
qed

theorem update_replace_failure_witness:
  "update (recording_env (failing (ReplacePackage ''/tmp/dl/root'' ''third_party/r'')) (Inr JNull))
     (example_updater release_without_assets) [example_metadata] [] =
     (Inl (OtherError ''OSError''), [example_metadata, example_updated],
      [Download (JStr example_latest), FindRoot ''/tmp/dl'',
       WriteMetadata ''/tmp/dl/root'' example_updated,
       ReplacePackage ''/tmp/dl/root'' ''third_party/r'', Rmtree (Some ''/tmp/dl''), Urlcleanup])"
  using update_replace_failure [where
      E = "recording_env (failing (ReplacePackage ''/tmp/dl/root'' ''third_party/r'')) (Inr JNull)"
      and self = "example_updater release_without_assets" and latest = "JStr example_latest"
      and h = "[example_metadata]" and w = "[]"
      and tmp = "''/tmp/dl''" and ?w1.0 = "[Download (JStr example_latest)]"
      and pkg = "''/tmp/dl/root''"
      and ?w2.0 = "[Download (JStr example_latest), FindRoot ''/tmp/dl'']"
      and ?h3.0 = "[example_metadata, example_updated]"
      and ?w3.0 = "[Download (JStr example_latest), FindRoot ''/tmp/dl'',
                    WriteMetadata ''/tmp/dl/root'' example_updated]"
      and e = "OtherError ''OSError''"
      and ?w4.0 = "[Download (JStr example_latest), FindRoot ''/tmp/dl'',
                    WriteMetadata ''/tmp/dl/root'' example_updated,
                    ReplacePackage ''/tmp/dl/root'' ''third_party/r'']"]
  by (simp add: run_defs example_latest_url example_write)

theorem update_without_payload_witness:
  "GithubArchiveUpdater example_url ''third_party/r'' 0 = Inr (example_updater JNull)
   \<and> update (recording_env no_failure (Inr JNull)) (example_updater JNull) [example_metadata] [] =
       (Inl TypeError, [example_metadata], [])"
  using update_without_payload [of "example_updater JNull" "recording_env no_failure (Inr JNull)"
      "[example_metadata]" "[]"]
  by (simp add: example_updater_def example_url_def GithubArchiveUpdater_def parse_url_def
      GITHUB_URL_RE_match_def match_group_def hyphen_or_word_def word_char_def)

text \<open>
  Against C6 as it is stated: a payload without \<^verbatim>\<open>assets\<close> makes the selection raise,
  and \<^verbatim>\<open>update()\<close> ends with no call recorded, although a cleanup would have recorded
  two.
\<close>

theorem update_selection_failure:
  "update (recording_env no_failure (Inr JNull)) (example_updater (JObject [(''tag_name'', JStr ''1.1'')]))
     [example_metadata] [] = (Inl (KeyError ''assets''), [example_metadata], [])
   \<and> cleanup (recording_env no_failure (Inr JNull)) None [] = [Rmtree None, Urlcleanup]"
  by (simp add: update_def latest_url_def supported_assets_def example_updater_def cleanup_def
      recording_calls raise_or_def no_failure_def)


theorem update_cleanup_witness:
  "update (recording_env no_failure (Inr JNull))
     (example_updater (JObject [(''assets'', JArray [JObject [(''size'', JInt 1)]])]))
     [example_metadata] [] =
     (Inl (KeyError ''browser_download_url''), [example_metadata], [])
   \<and> update (recording_env (failing (Download (JStr example_latest))) (Inr JNull))
     (example_updater release_without_assets) [example_metadata] [] =
     (Inl (OtherError ''OSError''), [example_metadata],
      [Download (JStr example_latest), Rmtree None, Urlcleanup])
   \<and> update (recording_env (failing (FindRoot ''/tmp/dl'')) (Inr JNull))
     (example_updater release_without_assets) [example_metadata] [] =
     (Inl (OtherError ''OSError''), [example_metadata],
      [Download (JStr example_latest), FindRoot ''/tmp/dl'', Rmtree (Some ''/tmp/dl''), Urlcleanup])
   \<and> update (recording_env (failing (WriteMetadata ''/tmp/dl/root'' example_updated)) (Inr JNull))
     (example_updater release_without_assets) [example_metadata] [] =
     (Inl (OtherError ''OSError''), [example_metadata, example_updated],
      [Download (JStr example_latest), FindRoot ''/tmp/dl'',
       WriteMetadata ''/tmp/dl/root'' example_updated, Rmtree (Some ''/tmp/dl''), Urlcleanup])
   \<and> update (recording_env no_failure (Inr JNull))
     (example_updater release_without_assets) [example_metadata] [] =
     (Inr (), [example_metadata, example_updated],
      [Download (JStr example_latest), FindRoot ''/tmp/dl'',
       WriteMetadata ''/tmp/dl/root'' example_updated,
       ReplacePackage ''/tmp/dl/root'' ''third_party/r'', Rmtree (Some ''/tmp/dl''), Urlcleanup])
   \<and> update (recording_env (failing (Rmtree (Some ''/tmp/dl''))) (Inr JNull))
     (example_updater release_without_assets) [example_metadata] [] =
     (Inr (), [example_metadata, example_updated],
      [Download (JStr example_latest), FindRoot ''/tmp/dl'',
       WriteMetadata ''/tmp/dl/root'' example_updated,
       ReplacePackage ''/tmp/dl/root'' ''third_party/r'', Rmtree (Some ''/tmp/dl''), Urlcleanup])
   \<and> update (recording_env (failing Urlcleanup) (Inr JNull))
     (example_updater release_without_assets) [example_metadata] [] =
     (Inr (), [example_metadata, example_updated],
      [Download (JStr example_latest), FindRoot ''/tmp/dl'',
       WriteMetadata ''/tmp/dl/root'' example_updated,
       ReplacePackage ''/tmp/dl/root'' ''third_party/r'', Rmtree (Some ''/tmp/dl''), Urlcleanup])
   \<and> remove_tree (recording_env (failing (Rmtree (Some ''/tmp/dl''))) (Inr JNull)) (Some ''/tmp/dl'')
       [Download (JStr example_latest), FindRoot ''/tmp/dl'',
        WriteMetadata ''/tmp/dl/root'' example_updated,
        ReplacePackage ''/tmp/dl/root'' ''third_party/r''] =
       (Inl (OtherError ''OSError''),
        [Download (JStr example_latest), FindRoot ''/tmp/dl'',
         WriteMetadata ''/tmp/dl/root'' example_updated,
         ReplacePackage ''/tmp/dl/root'' ''third_party/r'', Rmtree (Some ''/tmp/dl'')])
   \<and> unlink_cached (recording_env (failing Urlcleanup) (Inr JNull))
       [Download (JStr example_latest), FindRoot ''/tmp/dl'',
        WriteMetadata ''/tmp/dl/root'' example_updated,
        ReplacePackage ''/tmp/dl/root'' ''third_party/r'', Rmtree (Some ''/tmp/dl'')] =
       (Inl (OtherError ''OSError''),
        [Download (JStr example_latest), FindRoot ''/tmp/dl'',
         WriteMetadata ''/tmp/dl/root'' example_updated,
         ReplacePackage ''/tmp/dl/root'' ''third_party/r'', Rmtree (Some ''/tmp/dl''), Urlcleanup])"
proof -
  let ?self = "example_updater release_without_assets"
  let ?h = "[example_metadata]"
  let ?d = "Download (JStr example_latest)"
  let ?f = "FindRoot ''/tmp/dl''"
  let ?m = "WriteMetadata ''/tmp/dl/root'' example_updated"
  let ?p = "ReplacePackage ''/tmp/dl/root'' ''third_party/r''"
  have selection: "update (recording_env no_failure (Inr JNull))
     (example_updater (JObject [(''assets'', JArray [JObject [(''size'', JInt 1)]])]))
     ?h [] = (Inl (KeyError ''browser_download_url''), ?h, [])"
    using update_cleanup [where E = "recording_env no_failure (Inr JNull)"
        and self = "example_updater (JObject [(''assets'', JArray [JObject [(''size'', JInt 1)]])])"
        and sel_err = "KeyError ''browser_download_url''" and h = ?h and w = "[]"]
    by (simp add: latest_url_def supported_assets_def example_updater_fields)
  have download: "update (recording_env (failing ?d) (Inr JNull)) ?self ?h [] =
     (Inl (OtherError ''OSError''), ?h, [?d, Rmtree None, Urlcleanup])"
    using update_cleanup [where E = "recording_env (failing ?d) (Inr JNull)"
        and self = ?self and latest = "JStr example_latest" and h = ?h and w = "[]"
        and dl_err = "OtherError ''OSError''" and wd = "[?d]"]
    by (simp add: example_latest_url recording_calls raise_or_def failing_def)
  have root: "update (recording_env (failing ?f) (Inr JNull)) ?self ?h [] =
     (Inl (OtherError ''OSError''), ?h, [?d, ?f, Rmtree (Some ''/tmp/dl''), Urlcleanup])"
    using update_cleanup [where E = "recording_env (failing ?f) (Inr JNull)"
        and self = ?self and latest = "JStr example_latest" and h = ?h and w = "[]"
        and tmp = "''/tmp/dl''" and wa = "[?d]"
        and root_err = "OtherError ''OSError''" and wr = "[?d, ?f]"]
    by (simp add: example_latest_url recording_calls raise_or_def failing_def)
  have store: "update (recording_env (failing ?m) (Inr JNull)) ?self ?h [] =
     (Inl (OtherError ''OSError''), [example_metadata, example_updated],
      [?d, ?f, ?m, Rmtree (Some ''/tmp/dl''), Urlcleanup])"
    using update_cleanup [where E = "recording_env (failing ?m) (Inr JNull)"
        and self = ?self and latest = "JStr example_latest" and h = ?h and w = "[]"
        and tmp = "''/tmp/dl''" and wa = "[?d]" and pkg = "''/tmp/dl/root''" and wb = "[?d, ?f]"
        and md_err = "OtherError ''OSError''" and hm = "[example_metadata, example_updated]"
        and wm = "[?d, ?f, ?m]"]
    by (simp add: example_latest_url example_write recording_calls raise_or_def failing_def)
  have replace: "update (recording_env no_failure (Inr JNull)) ?self ?h [] =
     (Inr (), [example_metadata, example_updated],
      [?d, ?f, ?m, ?p, Rmtree (Some ''/tmp/dl''), Urlcleanup])"
    using update_cleanup [where E = "recording_env no_failure (Inr JNull)"
        and self = ?self and latest = "JStr example_latest" and h = ?h and w = "[]"
        and tmp = "''/tmp/dl''" and wa = "[?d]" and pkg = "''/tmp/dl/root''" and wb = "[?d, ?f]"
        and hc = "[example_metadata, example_updated]" and wc = "[?d, ?f, ?m]"
        and res = "Inr ()" and we = "[?d, ?f, ?m, ?p]"]
    by (simp add: example_latest_url example_write recording_calls raise_or_def no_failure_def
        example_updater_fields)
  have removal: "update (recording_env (failing (Rmtree (Some ''/tmp/dl''))) (Inr JNull)) ?self ?h [] =
     (Inr (), [example_metadata, example_updated],
      [?d, ?f, ?m, ?p, Rmtree (Some ''/tmp/dl''), Urlcleanup])"
    using update_cleanup [where E = "recording_env (failing (Rmtree (Some ''/tmp/dl''))) (Inr JNull)"
        and self = ?self and latest = "JStr example_latest" and h = ?h and w = "[]"
        and tmp = "''/tmp/dl''" and wa = "[?d]" and pkg = "''/tmp/dl/root''" and wb = "[?d, ?f]"
        and hc = "[example_metadata, example_updated]" and wc = "[?d, ?f, ?m]"
        and res = "Inr ()" and we = "[?d, ?f, ?m, ?p]"]
    by (simp add: example_latest_url example_write recording_calls raise_or_def failing_def
        example_updater_fields)
  have unlinking: "update (recording_env (failing Urlcleanup) (Inr JNull)) ?self ?h [] =
     (Inr (), [example_metadata, example_updated],
      [?d, ?f, ?m, ?p, Rmtree (Some ''/tmp/dl''), Urlcleanup])"
    using update_cleanup [where E = "recording_env (failing Urlcleanup) (Inr JNull)"
        and self = ?self and latest = "JStr example_latest" and h = ?h and w = "[]"
        and tmp = "''/tmp/dl''" and wa = "[?d]" and pkg = "''/tmp/dl/root''" and wb = "[?d, ?f]"
        and hc = "[example_metadata, example_updated]" and wc = "[?d, ?f, ?m]"
        and res = "Inr ()" and we = "[?d, ?f, ?m, ?p]"]
    by (simp add: example_latest_url example_write recording_calls raise_or_def failing_def
        example_updater_fields)
  have failures:
    "remove_tree (recording_env (failing (Rmtree (Some ''/tmp/dl''))) (Inr JNull)) (Some ''/tmp/dl'')
       [?d, ?f, ?m, ?p] = (Inl (OtherError ''OSError''), [?d, ?f, ?m, ?p, Rmtree (Some ''/tmp/dl'')])"
    "unlink_cached (recording_env (failing Urlcleanup) (Inr JNull))
       [?d, ?f, ?m, ?p, Rmtree (Some ''/tmp/dl'')] =
       (Inl (OtherError ''OSError''), [?d, ?f, ?m, ?p, Rmtree (Some ''/tmp/dl''), Urlcleanup])"
    by (simp_all add: recording_calls raise_or_def failing_def)
  from selection download root store replace removal unlinking failures show ?thesis
    by simp
qed

theorem get_latest_version_cases_witness:
  "get_latest_version (recording_env no_failure (Inr release_without_assets))
     (example_updater JNull) [] =
     (Inr (JStr ''1.1''), example_updater release_without_assets,
      [Urlopen ''https://api.github.com/repos/o/r/releases/latest''])
   \<and> get_latest_version
     (recording_env (failing (Urlopen ''https://api.github.com/repos/o/r/releases/latest''))
        (Inr release_without_assets))
     (example_updater JNull) [] =
     (Inl (OtherError ''OSError''), example_updater JNull,
      [Urlopen ''https://api.github.com/repos/o/r/releases/latest''])
   \<and> get_latest_version (recording_env no_failure (Inl (OtherError ''JSONDecodeError'')))
     (example_updater JNull) [] =
     (Inl (OtherError ''JSONDecodeError''), example_updater JNull,
      [Urlopen ''https://api.github.com/repos/o/r/releases/latest''])
   \<and> get_latest_version (recording_env no_failure (Inr (JObject [(''assets'', JArray [])])))
     (example_updater JNull) [] =
     (Inl (KeyError ''tag_name''), example_updater (JObject [(''assets'', JArray [])]),
      [Urlopen ''https://api.github.com/repos/o/r/releases/latest''])"
proof -
  let ?a = "''https://api.github.com/repos/o/r/releases/latest''"
  let ?self = "example_updater JNull"
  have fields: "owner ?self = Some ''o''" "repo ?self = Some ''r''"
    by (simp_all add: example_updater_fields)
  have ok: "get_latest_version (recording_env no_failure (Inr release_without_assets)) ?self [] =
     (Inr (JStr ''1.1''), example_updater release_without_assets, [Urlopen ?a])"
    using get_latest_version_cases [OF fields,
        where E = "recording_env no_failure (Inr release_without_assets)" and w = "[]"
        and body = "''body''" and wa = "[Urlopen ?a]"
        and kvs = "[(''tag_name'', JStr ''1.1''), (''assets'', JArray [])]" and tag = "JStr ''1.1''"]
    by (simp add: Let_def recording_calls raise_or_def no_failure_def release_without_assets_def
        example_updater_def)
  have network: "get_latest_version (recording_env (failing (Urlopen ?a))
        (Inr release_without_assets)) ?self [] =
     (Inl (OtherError ''OSError''), ?self, [Urlopen ?a])"
    using get_latest_version_cases [OF fields,
        where E = "recording_env (failing (Urlopen ?a)) (Inr release_without_assets)"
        and w = "[]" and net_err = "OtherError ''OSError''" and wn = "[Urlopen ?a]"]
    by (simp add: Let_def recording_calls raise_or_def failing_def)
  have parse: "get_latest_version (recording_env no_failure (Inl (OtherError ''JSONDecodeError'')))
       ?self [] = (Inl (OtherError ''JSONDecodeError''), ?self, [Urlopen ?a])"
    using get_latest_version_cases [OF fields,
        where E = "recording_env no_failure (Inl (OtherError ''JSONDecodeError''))"
        and w = "[]" and body = "''body''" and wa = "[Urlopen ?a]"
        and parse_err = "OtherError ''JSONDecodeError''"]
    by (simp add: Let_def recording_calls raise_or_def no_failure_def)
  have tag: "get_latest_version (recording_env no_failure (Inr (JObject [(''assets'', JArray [])])))
       ?self [] =
     (Inl (KeyError ''tag_name''), example_updater (JObject [(''assets'', JArray [])]), [Urlopen ?a])"
    using get_latest_version_cases [OF fields,
        where E = "recording_env no_failure (Inr (JObject [(''assets'', JArray [])]))"
        and w = "[]" and body = "''body''" and wa = "[Urlopen ?a]"
        and kvs = "[(''assets'', JArray [])]"]
    by (simp add: Let_def recording_calls raise_or_def no_failure_def example_updater_def)
  from ok network parse tag show ?thesis
    by simp
qed

theorem get_current_version_read_witness:
  "get_current_version (example_updater JNull) [example_metadata] = Inr ''1.0''
   \<and> get_latest_version (recording_env no_failure (Inr release_without_assets))
       (example_updater JNull) [] =
       (Inr (JStr ''1.1''), example_updater release_without_assets,
        [Urlopen ''https://api.github.com/repos/o/r/releases/latest''])
   \<and> get_current_version (example_updater release_without_assets) [example_metadata] = Inr ''1.0''"
proof -
  have run: "get_latest_version (recording_env no_failure (Inr release_without_assets))
       (example_updater JNull) [] =
       (Inr (JStr ''1.1''), example_updater release_without_assets,
        [Urlopen ''https://api.github.com/repos/o/r/releases/latest''])"
    by (simp add: get_latest_version_def recording_calls raise_or_def no_failure_def
        release_without_assets_def example_updater_def)
  have "metadata (example_updater JNull) < length [example_metadata]"
    by (simp add: example_updater_fields)
  with get_current_version_read [where self = "example_updater JNull" and h = "[example_metadata]"
      and E = "recording_env no_failure (Inr release_without_assets)" and w = "[]"
      and res = "Inr (JStr ''1.1'')" and self' = "example_updater release_without_assets"
      and w' = "[Urlopen ''https://api.github.com/repos/o/r/releases/latest'']"] run
  show ?thesis
    by (simp add: example_updater_fields example_metadata_def)
qed

text \<open>
  Against C5 as it is stated: on the file system, the metadata write succeeds and the
  replacement then raises, as the claim supposes; the record was written below the
  package root inside the temporary directory, the cleanup removes that directory, and
  the files after \<^verbatim>\<open>update()\<close> are the files before it, with the metadata of the
  project still at version 1.0. No updated metadata is left.
\<close>

theorem update_replace_failure_write_removed:
  "latest_url file_system_env (example_updater release_without_assets) = Inr (JStr example_latest)
   \<and> download_and_extract file_system_env (JStr example_latest) project_files =
       (Inr ''/tmp/dl'', project_files @ [(''/tmp/dl/r-1.1/README'', SourceFile ''r 1.1'')])
   \<and> find_archive_root file_system_env ''/tmp/dl''
         (project_files @ [(''/tmp/dl/r-1.1/README'', SourceFile ''r 1.1'')]) =
       (Inr ''/tmp/dl/r-1.1'', project_files @ [(''/tmp/dl/r-1.1/README'', SourceFile ''r 1.1'')])
   \<and> write_metadata file_system_env (example_updater release_without_assets)
         (JStr example_latest) ''/tmp/dl/r-1.1'' [example_metadata]
         (project_files @ [(''/tmp/dl/r-1.1/README'', SourceFile ''r 1.1'')]) =
       (Inr (), [example_metadata, example_updated],
        project_files @ [(''/tmp/dl/r-1.1/README'', SourceFile ''r 1.1''),
                         (''/tmp/dl/r-1.1/METADATA'', MetadataFile example_updated)])
   \<and> replace_package file_system_env ''/tmp/dl/r-1.1'' ''third_party/r''
         (project_files @ [(''/tmp/dl/r-1.1/README'', SourceFile ''r 1.1''),
                           (''/tmp/dl/r-1.1/METADATA'', MetadataFile example_updated)]) =
       (Inl (OtherError ''OSError''),
        project_files @ [(''/tmp/dl/r-1.1/README'', SourceFile ''r 1.1''),
                         (''/tmp/dl/r-1.1/METADATA'', MetadataFile example_updated)])
   \<and> update file_system_env (example_updater release_without_assets) [example_metadata]
         project_files =
       (Inl (OtherError ''OSError''), [example_metadata, example_updated], project_files)
   \<and> map_of project_files ''third_party/r/METADATA'' = Some (MetadataFile example_metadata)"
  by (simp add: update_def update_try_def cleanup_def rmtree_def urlcleanup_def latest_url_def
      supported_assets_def write_metadata_def Let_def file_system_env_def write_file_def
      remove_below_def starts_with_def project_files_def example_defs)

text \<open>
  Against C10 as it is stated: \<^verbatim>\<open>get_latest_version()\<close> fails on a payload without
  \<^verbatim>\<open>tag_name\<close>, so it has never succeeded, but the payload is stored; \<^verbatim>\<open>update()\<close>
  on that instance then downloads the guessed tarball \<^verbatim>\<open>None.tar.gz\<close> and searches
  its root before the metadata write raises.
\<close>

theorem update_after_failed_query:
  "get_latest_version (recording_env no_failure (Inr (JObject [(''assets'', JArray [])])))
     (example_updater JNull) [] =
     (Inl (KeyError ''tag_name''), example_updater (JObject [(''assets'', JArray [])]),
      [Urlopen ''https://api.github.com/repos/o/r/releases/latest''])
   \<and> update (recording_env no_failure (Inr (JObject [(''assets'', JArray [])])))
     (example_updater (JObject [(''assets'', JArray [])])) [example_metadata]
     [Urlopen ''https://api.github.com/repos/o/r/releases/latest''] =
     (Inl (KeyError ''tag_name''), [example_metadata, example_metadata],
      [Urlopen ''https://api.github.com/repos/o/r/releases/latest'',
       Download (JStr ''https://github.com/o/r/archive/None.tar.gz''), FindRoot ''/tmp/dl'',
       Rmtree (Some ''/tmp/dl''), Urlcleanup])"
  by (simp add: get_latest_version_def run_defs latest_url_def supported_assets_def
      write_metadata_def Let_def example_updater_def)

end
